theory Spec2Isabelle
  imports Complex_Main
begin

section \<open>Vectors\<close>

text \<open>
  \<^verbatim>\<open>MVector\<close> of the host library: three double components, modelled over the reals
  (rounding is not modelled). \<^verbatim>\<open>normalize()\<close> leaves a vector of length zero as it is.
\<close>

datatype MVector = MVector (vx: real) (vy: real) (vz: real)

definition vadd :: "MVector \<Rightarrow> MVector \<Rightarrow> MVector" where
  "vadd a b = MVector (vx a + vx b) (vy a + vy b) (vz a + vz b)"

definition vsub :: "MVector \<Rightarrow> MVector \<Rightarrow> MVector" where
  "vsub a b = MVector (vx a - vx b) (vy a - vy b) (vz a - vz b)"

definition vdiv :: "MVector \<Rightarrow> real \<Rightarrow> MVector" where
  "vdiv a k = MVector (vx a / k) (vy a / k) (vz a / k)"

definition vmul :: "MVector \<Rightarrow> real \<Rightarrow> MVector" where
  "vmul a k = MVector (vx a * k) (vy a * k) (vz a * k)"

definition vlength :: "MVector \<Rightarrow> real" where
  "vlength a = sqrt (vx a * vx a + vy a * vy a + vz a * vz a)"

definition vnormalize :: "MVector \<Rightarrow> MVector" where
  "vnormalize a = (if vlength a = 0 then a else vdiv a (vlength a))"

section \<open>The scene-graph commands the tool issues\<close>

text \<open>
  One constructor for each host command of \<^verbatim>\<open>limbRiggingTool.py\<close>, with the arguments the
  source passes: \<^verbatim>\<open>mc.ls(sl=True)\<close>, \<^verbatim>\<open>mc.circle(n=, r=, nr=)\<close>, \<^verbatim>\<open>mc.group(objs, n=)\<close>,
  \<^verbatim>\<open>mc.matchTransform(a, b)\<close>, \<^verbatim>\<open>mc.orientConstraint(driver, driven)\<close>,
  \<^verbatim>\<open>mc.parent(child, parent)\<close>, \<^verbatim>\<open>mel.eval(s)\<close>, \<^verbatim>\<open>mc.xform(n, q=True, t=True, ws=True)\<close>,
  \<^verbatim>\<open>mc.move(x, y, z, n)\<close>, \<^verbatim>\<open>mc.addAttr(n, ln=, k=, min=, max=)\<close>, \<^verbatim>\<open>mc.expression(s=)\<close>,
  \<^verbatim>\<open>mc.listConnections(n, s=, t=)\<close>, \<^verbatim>\<open>mc.scale(x, y, z, n, r=)\<close>,
  \<^verbatim>\<open>mc.makeIdentity(n, apply=)\<close>, \<^verbatim>\<open>mc.ikHandle(n=, sj=, ee=, sol=)\<close>, \<^verbatim>\<open>mc.getAttr(a)\<close>,
  \<^verbatim>\<open>mc.spaceLocator(n=)\<close>, \<^verbatim>\<open>mc.poleVectorConstraint(a, b)\<close>, \<^verbatim>\<open>mc.setAttr(a, v)\<close>.
\<close>

datatype cmd =
    Ls_sl
  | Circle string int "int \<times> int \<times> int"
  | Group "string list" string
  | MatchTransform string string
  | OrientConstraint string string
  | Parent string string
  | MelEval string
  | Xform_q_t_ws string
  | Move real real real string
  | AddAttr string string bool int int
  | Expression string
  | ListConnections string bool string
  | Scale int int int string bool
  | MakeIdentity string bool
  | IkHandle string string string string
  | GetAttr string
  | SpaceLocator string
  | PoleVectorConstraint string string
  | SetAttr string int

text \<open>What a command hands back to Python, as far as the tool reads it.\<close>

datatype val =
    VNone
  | VStrs "string list"
  | VNums "real list"
  | VTuples "(real list) list"

datatype error = IndexError | TypeError | RuntimeError string

section \<open>Running against a host\<close>

text \<open>
  The host (the scene graph behind \<^verbatim>\<open>mc\<close> and \<^verbatim>\<open>mel\<close>) is a parameter: a function from
  its state and a command to a reply (a value or a raised error) and its next state.
  The world is the host's state together with the calls made so far and their replies.
  A Python exception ends the run with \<open>Inl\<close>, keeping the world as it is at that point.
\<close>

type_synonym 'h host = "'h \<Rightarrow> cmd \<Rightarrow> (error + val) \<times> 'h"

record 'h world =
  scene :: 'h
  trace :: "(cmd \<times> (error + val)) list"

type_synonym ('h, 'a) prog = "'h world \<Rightarrow> (error + 'a) \<times> 'h world"

definition call :: "'h host \<Rightarrow> cmd \<Rightarrow> ('h, val) prog" where
  "call host c w =
     (case host (scene w) c of
        (r, h') \<Rightarrow> (r, \<lparr>scene = h', trace = trace w @ [(c, r)]\<rparr>))"

definition ret :: "'a \<Rightarrow> ('h, 'a) prog" where
  "ret x w = (Inr x, w)"

definition lift :: "error + 'a \<Rightarrow> ('h, 'a) prog" where
  "lift r w = (r, w)"

definition then_do :: "('h, 'a) prog \<Rightarrow> ('a \<Rightarrow> ('h, 'b) prog) \<Rightarrow> ('h, 'b) prog" where
  "then_do m f w =
     (case m w of
        (Inl e, w') \<Rightarrow> (Inl e, w')
      | (Inr x, w') \<Rightarrow> f x w')"

subsection \<open>Reading replies\<close>

text \<open>\<^verbatim>\<open>v[i]\<close> on a list of names. A reply of another shape raises \<^verbatim>\<open>TypeError\<close>.\<close>

definition index_strs :: "val \<Rightarrow> nat \<Rightarrow> error + string" where
  "index_strs v i =
     (case v of
        VStrs xs \<Rightarrow> (if i < length xs then Inr (xs ! i) else Inl IndexError)
      | _ \<Rightarrow> Inl TypeError)"

text \<open>\<^verbatim>\<open>MVector(v[0], v[1], v[2])\<close> on a list of numbers.\<close>

definition mvector_of_list :: "real list \<Rightarrow> error + MVector" where
  "mvector_of_list xs =
     (if 2 < length xs then Inr (MVector (xs ! 0) (xs ! 1) (xs ! 2)) else Inl IndexError)"

definition mvector_of_vals :: "val \<Rightarrow> error + MVector" where
  "mvector_of_vals v =
     (case v of
        VNums xs \<Rightarrow> mvector_of_list xs
      | _ \<Rightarrow> Inl TypeError)"

text \<open>\<^verbatim>\<open>t = v[0]; MVector(t[0], t[1], t[2])\<close> on a list of tuples.\<close>

definition mvector_of_first_tuple :: "val \<Rightarrow> error + MVector" where
  "mvector_of_first_tuple v =
     (case v of
        VTuples ts \<Rightarrow> (case ts of [] \<Rightarrow> Inl IndexError | t # _ \<Rightarrow> mvector_of_list t)
      | _ \<Rightarrow> Inl TypeError)"

section \<open>The limb rigging tool\<close>

subsection \<open>\<^verbatim>\<open>CreateFKForJnt\<close>\<close>

definition CreateFKForJnt :: "'h host \<Rightarrow> int \<Rightarrow> string \<Rightarrow> ('h, string \<times> string) prog" where
  "CreateFKForJnt host controllerSize jnt =
     (let fkCtrlName = ''ac_fk_'' @ jnt;
          fkCtrlGrpName = fkCtrlName @ ''_grp''
      in then_do (call host (Circle fkCtrlName controllerSize (1, 0, 0))) (\<lambda>_.
         then_do (call host (Group [fkCtrlName] fkCtrlGrpName)) (\<lambda>_.
         then_do (call host (MatchTransform fkCtrlGrpName jnt)) (\<lambda>_.
         then_do (call host (OrientConstraint fkCtrlName jnt)) (\<lambda>_.
         ret (fkCtrlName, fkCtrlGrpName))))))"

subsection \<open>\<^verbatim>\<open>CreateIkControl\<close>\<close>

definition ikEndCtrlCurve :: "string \<Rightarrow> string" where
  "ikEndCtrlCurve ikEndCtrlName =
     ''curve -d 1 -n '' @ ikEndCtrlName @
     '' -p -0.5 0.5 0.5 -p 0.5 0.5 0.5 -p 0.5 0.5 -0.5 -p -0.5 0.5 -0.5 -p -0.5 0.5 0.5 -p -0.5 -0.5 0.5 -p -0.5 -0.5 -0.5 -p -0.5 0.5 -0.5 -p -0.5 -0.5 -0.5 -p 0.5 -0.5 -0.5 -p 0.5 -0.5 0.5 -p -0.5 -0.5 0.5 -p -0.5 -0.5 -0.5 -p 0.5 -0.5 -0.5 -p 0.5 -0.5 0.5 -p 0.5 0.5 0.5 -p 0.5 0.5 -0.5 -p 0.5 -0.5 -0.5 -p 0.5 -0.5 0.5 -p -0.5 -0.5 0.5 -p -0.5 0.5 0.5 -p 0.5 0.5 0.5 -k 0 -k 1 -k 2 -k 3 -k 4 -k 5 -k 6 -k 7 -k 8 -k 9 -k 10 -k 11 -k 12 -k 13 -k 14 -k 15 -k 16 -k 17 -k 18 -k 19 -k 20 -k 21 ;''"

text \<open>
  The position of the pole-vector control, lines 130 to 136 of the source:
  the pole vector normalised, the half limb vector, and their sum from the root.
\<close>

definition midIkCtrlPos :: "MVector \<Rightarrow> MVector \<Rightarrow> MVector \<Rightarrow> MVector" where
  "midIkCtrlPos rootJntPos endJntPos poleVectorVals =
     (let poleVector = vnormalize poleVectorVals;
          vectorToEnd = vsub endJntPos rootJntPos;
          LimbDirOffset = vdiv vectorToEnd 2;
          poleVectorDirOffset = vmul poleVector (vlength LimbDirOffset)
      in vadd (vadd rootJntPos LimbDirOffset) poleVectorDirOffset)"

definition CreateIkControl ::
  "'h host \<Rightarrow> int \<Rightarrow> string \<Rightarrow> string \<Rightarrow> string \<Rightarrow>
     ('h, string \<times> string \<times> string \<times> string \<times> string) prog" where
  "CreateIkControl host controllerSize rootJnt midJnt endJnt =
     (let ikEndCtrlName = ''ac_ik_'' @ endJnt;
          ikEndCtrlGrpName = ikEndCtrlName @ ''_grp'';
          ikHandleName = ''ikHandle_'' @ endJnt;
          midIkCtrlName = ''ac_ik_'' @ midJnt;
          midIkCtrlGrpName = midIkCtrlName @ ''_grp''
      in then_do (call host (MelEval (ikEndCtrlCurve ikEndCtrlName))) (\<lambda>_.
         then_do (call host (Scale controllerSize controllerSize controllerSize ikEndCtrlName True)) (\<lambda>_.
         then_do (call host (MakeIdentity ikEndCtrlName True)) (\<lambda>_.
         then_do (call host (Group [ikEndCtrlName] ikEndCtrlGrpName)) (\<lambda>_.
         then_do (call host (MatchTransform ikEndCtrlGrpName endJnt)) (\<lambda>_.
         then_do (call host (OrientConstraint ikEndCtrlName endJnt)) (\<lambda>_.
         then_do (call host (IkHandle ikHandleName rootJnt endJnt ''ikRPsolver'')) (\<lambda>_.
         then_do (call host (Xform_q_t_ws rootJnt)) (\<lambda>rootJntPosVals.
         then_do (lift (mvector_of_vals rootJntPosVals)) (\<lambda>rootJntPos.
         then_do (call host (Xform_q_t_ws endJnt)) (\<lambda>endJntPosVals.
         then_do (lift (mvector_of_vals endJntPosVals)) (\<lambda>endJntPos.
         then_do (call host (GetAttr (ikHandleName @ ''.poleVector''))) (\<lambda>poleVectorAttr.
         then_do (lift (mvector_of_first_tuple poleVectorAttr)) (\<lambda>poleVectorVals.
         (let pos = midIkCtrlPos rootJntPos endJntPos poleVectorVals
          in then_do (call host (SpaceLocator midIkCtrlName)) (\<lambda>_.
             then_do (call host (Group [midIkCtrlName] midIkCtrlGrpName)) (\<lambda>_.
             then_do (call host (Move (vx pos) (vy pos) (vz pos) midIkCtrlGrpName)) (\<lambda>_.
             then_do (call host (Parent ikHandleName ikEndCtrlName)) (\<lambda>_.
             then_do (call host (PoleVectorConstraint midIkCtrlName ikHandleName)) (\<lambda>_.
             then_do (call host (SetAttr (ikHandleName @ ''.v'') 0)) (\<lambda>_.
             ret (ikEndCtrlName, ikEndCtrlGrpName, midIkCtrlName, midIkCtrlGrpName,
                  ikHandleName))))))))))))))))))))))"

subsection \<open>\<^verbatim>\<open>RigTheLimb\<close>\<close>

definition ikfkBlendCtrlCurve :: "string \<Rightarrow> string" where
  "ikfkBlendCtrlCurve ikfkBlendCtrlName =
     ''curve -d 1 -n '' @ ikfkBlendCtrlName @
     '' -p -1 1 0 -p -1 3 0 -p 1 3 0 -p 1 1 0 -p 3 1 0 -p 3 -1 0 -p 1 -1 0 -p 1 -3 0 -p -1 -3 0 -p -1 -1 0 -p -3 -1 0 -p -3 1 0 -p -1 1 0 -k 0 -k 1 -k 2 -k 3 -k 4 -k 5 -k 6 -k 7 -k 8 -k 9 -k 10 -k 11 -k 12 ;''"

text \<open>Line 79: \<^verbatim>\<open>rootJntPos + MVector(rootJntPos.x, 0, 0)\<close>.\<close>

definition ikfkBlendCtrlPos :: "MVector \<Rightarrow> MVector" where
  "ikfkBlendCtrlPos rootJntPos = vadd rootJntPos (MVector (vx rootJntPos) 0 0)"

text \<open>
  \<^verbatim>\<open>RigTheLimb\<close> is written in two parts: \<open>RigTheLimb_joints\<close> is lines 63 to 96 of the
  source, everything the function does once \<^verbatim>\<open>rootJnt\<close>, \<^verbatim>\<open>midJnt\<close> and \<^verbatim>\<open>endJnt\<close> are
  bound; \<open>RigTheLimb\<close> is lines 57 to 61, the reading of the selection, followed by it.
\<close>

definition RigTheLimb_joints :: "'h host \<Rightarrow> int \<Rightarrow> string \<Rightarrow> string \<Rightarrow> string \<Rightarrow> ('h, unit) prog" where
  "RigTheLimb_joints host controllerSize rootJnt midJnt endJnt =
     then_do (CreateFKForJnt host controllerSize rootJnt) (\<lambda>(rootFKCtrl, rootFKCtrlGrp).
     then_do (CreateFKForJnt host controllerSize midJnt) (\<lambda>(midFKCtrl, midFKCtrlGrp).
     then_do (CreateFKForJnt host controllerSize endJnt) (\<lambda>(endFKCtrl, endFKCtrlGrp).
     then_do (call host (Parent midFKCtrlGrp rootFKCtrl)) (\<lambda>_.
     then_do (call host (Parent endFKCtrlGrp midFKCtrl)) (\<lambda>_.
     then_do (CreateIkControl host controllerSize rootJnt midJnt endJnt)
       (\<lambda>(ikEndCtrlName, ikEndCtrlGrpName, midIkCtrlName, midIkCtrlGrpName, ikHandleName).
     (let ikfkBlendCtrlName = ''ac_ikfk_blend_'' @ rootJnt;
          ikfkBlendCtrlGrpName = ikfkBlendCtrlName @ ''_grp''
      in then_do (call host (MelEval (ikfkBlendCtrlCurve ikfkBlendCtrlName))) (\<lambda>_.
         then_do (call host (Group [ikfkBlendCtrlName] ikfkBlendCtrlGrpName)) (\<lambda>_.
         then_do (call host (Xform_q_t_ws rootJnt)) (\<lambda>rootJntPosVals.
         then_do (lift (mvector_of_vals rootJntPosVals)) (\<lambda>rootJntPos.
         (let pos = ikfkBlendCtrlPos rootJntPos;
              ikfkBlendAttrName = ''ikfk_blend'';
              blend = ikfkBlendCtrlName @ ''.'' @ ikfkBlendAttrName
          in then_do (call host (Move (vx pos) (vy pos) (vz pos) ikfkBlendCtrlGrpName)) (\<lambda>_.
             then_do (call host (AddAttr ikfkBlendCtrlName ikfkBlendAttrName True 0 1)) (\<lambda>_.
             then_do (call host (Expression (rootFKCtrlGrp @ ''.v=1-'' @ blend @ '';''))) (\<lambda>_.
             then_do (call host (Expression (ikEndCtrlGrpName @ ''.v='' @ blend))) (\<lambda>_.
             then_do (call host (Expression (midIkCtrlGrpName @ ''.v='' @ blend))) (\<lambda>_.
             then_do (call host (Expression (ikHandleName @ ''.ikBlend='' @ blend))) (\<lambda>_.
             then_do (call host (ListConnections endJnt True ''orientConstraint'')) (\<lambda>connections.
             then_do (lift (index_strs connections 0)) (\<lambda>endJntOrientConstraint.
             then_do (call host (Expression
                        (endJntOrientConstraint @ ''.'' @ endFKCtrl @ ''W0=1-'' @ blend @ '';''))) (\<lambda>_.
             then_do (call host (Expression
                        (endJntOrientConstraint @ ''.'' @ ikEndCtrlName @ ''W1='' @ blend @ '';''))) (\<lambda>_.
             (let topGrpName = rootJnt @ ''_rig_grp''
              in then_do (call host (Group [rootFKCtrlGrp, ikEndCtrlGrpName, midIkCtrlGrpName,
                                            ikfkBlendCtrlGrpName] topGrpName)) (\<lambda>_.
                 ret ()))))))))))))))))))))))))"

definition RigTheLimb :: "'h host \<Rightarrow> int \<Rightarrow> ('h, unit) prog" where
  "RigTheLimb host controllerSize =
     then_do (call host Ls_sl) (\<lambda>selection.
     then_do (lift (index_strs selection 0)) (\<lambda>rootJnt.
     then_do (lift (index_strs selection 1)) (\<lambda>midJnt.
     then_do (lift (index_strs selection 2)) (\<lambda>endJnt.
     RigTheLimb_joints host controllerSize rootJnt midJnt endJnt))))"

section \<open>A reference scene graph\<close>

text \<open>
  Modelled from the spec: the scene-graph adapter, the external collaborator of sections 2,
  6 and 7, which is not part of the repository. Only what the tool relies on is kept: which
  nodes exist, the parent of each node, the translation set on a node, the drivers of the
  orientation constraint of a node, the pole vector of an IK handle, attributes and
  expressions. A command that names a missing node, or creates a node under a name that
  is taken, fails with \<open>RuntimeError\<close> and changes nothing.
\<close>

record scene =
  selected :: "string list"
  nodes :: "string list"
  parent_of :: "string \<rightharpoonup> string"
  translation :: "string \<rightharpoonup> MVector"
  orient_drivers :: "string \<Rightarrow> string list"
  solver_pole :: MVector
  pole_vector :: "string \<rightharpoonup> MVector"
  pole_constraint :: "string \<rightharpoonup> string"
  attrs :: "string \<rightharpoonup> real"
  expressions :: "string list"

definition fails :: "string \<Rightarrow> scene \<Rightarrow> (error + val) \<times> scene" where
  "fails msg s = (Inl (RuntimeError msg), s)"

definition create_node :: "string \<Rightarrow> scene \<Rightarrow> (error + val) \<times> scene" where
  "create_node n s =
     (if n \<in> set (nodes s) then fails ''name is not unique'' s
      else (Inr (VStrs [n]),
            s\<lparr>nodes := nodes s @ [n],
              parent_of := (parent_of s)(n := None),
              translation := (translation s)(n \<mapsto> MVector 0 0 0)\<rparr>))"

definition node_of_attr :: "string \<Rightarrow> string" where
  "node_of_attr a = takeWhile (\<lambda>c. c \<noteq> CHR ''.'') a"

definition curve_name :: "string \<Rightarrow> string" where
  "curve_name str = takeWhile (\<lambda>c. c \<noteq> CHR '' '') (drop 14 str)"

fun maya :: "scene host" where
  "maya s Ls_sl = (Inr (VStrs (selected s)), s)"
| "maya s (Circle n r nr) = create_node n s"
| "maya s (SpaceLocator n) = create_node n s"
| "maya s (MelEval str) =
     (if take 14 str = ''curve -d 1 -n '' then create_node (curve_name str) s
      else fails ''unknown procedure'' s)"
| "maya s (Group cs g) =
     (if cs = [] \<or> \<not> set cs \<subseteq> set (nodes s) then fails ''no object matches name'' s
      else if g \<in> set (nodes s) then fails ''name is not unique'' s
      else (Inr (VStrs [g]),
            s\<lparr>nodes := nodes s @ [g],
              parent_of := (\<lambda>n. if n = g then None
                                 else if n \<in> set cs then Some g else parent_of s n),
              translation := (translation s)(g \<mapsto> MVector 0 0 0)\<rparr>))"
| "maya s (Parent c p) =
     (if c \<in> set (nodes s) \<and> p \<in> set (nodes s) \<and> c \<noteq> p
      then (Inr (VStrs [c]), s\<lparr>parent_of := (parent_of s)(c \<mapsto> p)\<rparr>)
      else fails ''no object matches name'' s)"
| "maya s (MatchTransform a b) =
     (if a \<in> set (nodes s) \<and> b \<in> set (nodes s)
      then (Inr VNone, s\<lparr>translation := (translation s)(a := translation s b)\<rparr>)
      else fails ''no object matches name'' s)"
| "maya s (OrientConstraint driver driven) =
     (if driver \<in> set (nodes s) \<and> driven \<in> set (nodes s)
      then (Inr (VStrs [driven @ ''_orientConstraint1'']),
            s\<lparr>orient_drivers := (orient_drivers s)(driven := orient_drivers s driven @ [driver])\<rparr>)
      else fails ''no object matches name'' s)"
| "maya s (Xform_q_t_ws n) =
     (if n \<in> set (nodes s)
      then (case translation s n of
              Some v \<Rightarrow> (Inr (VNums [vx v, vy v, vz v]), s)
            | None \<Rightarrow> fails ''not a transform'' s)
      else fails ''no object matches name'' s)"
| "maya s (Move x y z n) =
     (if n \<in> set (nodes s)
      then (Inr VNone, s\<lparr>translation := (translation s)(n \<mapsto> MVector x y z)\<rparr>)
      else fails ''no object matches name'' s)"
| "maya s (AddAttr n long k mn mx) =
     (if n \<in> set (nodes s) \<and> attrs s (n @ ''.'' @ long) = None
      then (Inr VNone, s\<lparr>attrs := (attrs s)(n @ ''.'' @ long \<mapsto> real_of_int mn)\<rparr>)
      else fails ''cannot add attribute'' s)"
| "maya s (Expression str) =
     (Inr (VStrs [''expression'']), s\<lparr>expressions := expressions s @ [str]\<rparr>)"
| "maya s (ListConnections n src t) =
     (if n \<in> set (nodes s)
      then (if t = ''orientConstraint'' \<and> orient_drivers s n \<noteq> []
            then (Inr (VStrs [n @ ''_orientConstraint1'']), s)
            else (Inr VNone, s))
      else fails ''no object matches name'' s)"
| "maya s (Scale x y z n r) =
     (if n \<in> set (nodes s) then (Inr VNone, s) else fails ''no object matches name'' s)"
| "maya s (MakeIdentity n a) =
     (if n \<in> set (nodes s) then (Inr VNone, s) else fails ''no object matches name'' s)"
| "maya s (IkHandle n sj ee sol) =
     (if sj \<in> set (nodes s) \<and> ee \<in> set (nodes s) \<and> n \<notin> set (nodes s) \<and> sol = ''ikRPsolver''
      then (Inr (VStrs [n, ''effector1'']),
            s\<lparr>nodes := nodes s @ [n],
              parent_of := (parent_of s)(n := None),
              pole_vector := (pole_vector s)(n \<mapsto> solver_pole s)\<rparr>)
      else fails ''cannot create the handle'' s)"
| "maya s (GetAttr a) =
     (case pole_vector s (node_of_attr a) of
        Some v \<Rightarrow>
          (if a = node_of_attr a @ ''.poleVector''
           then (Inr (VTuples [[vx v, vy v, vz v]]), s)
           else fails ''no such attribute'' s)
      | None \<Rightarrow> fails ''no such attribute'' s)"
| "maya s (PoleVectorConstraint loc h) =
     (if loc \<in> set (nodes s) \<and> h \<in> set (nodes s)
      then (Inr (VStrs [h @ ''_poleVectorConstraint1'']),
            s\<lparr>pole_constraint := (pole_constraint s)(h \<mapsto> loc)\<rparr>)
      else fails ''no object matches name'' s)"
| "maya s (SetAttr a v) =
     (if node_of_attr a \<in> set (nodes s)
      then (Inr VNone, s\<lparr>attrs := (attrs s)(a \<mapsto> real_of_int v)\<rparr>)
      else fails ''no object matches name'' s)"

text \<open>
  A scene with the three joints of a limb along the x axis, selected from root to end,
  and a solver whose rotate-plane handles start with the pole vector \<open>(0, 0, 3)\<close>.
\<close>

definition limb_scene :: "string list \<Rightarrow> scene" where
  "limb_scene sel =
     \<lparr>selected = sel,
      nodes = [''hip'', ''knee'', ''ankle'', ''toe''],
      parent_of = [''knee'' \<mapsto> ''hip'', ''ankle'' \<mapsto> ''knee'', ''toe'' \<mapsto> ''ankle''],
      translation = [''hip'' \<mapsto> MVector 3 0 0, ''knee'' \<mapsto> MVector 3 4 0,
                     ''ankle'' \<mapsto> MVector 3 8 0, ''toe'' \<mapsto> MVector 3 8 2],
      orient_drivers = (\<lambda>_. []),
      solver_pole = MVector 0 0 3,
      pole_vector = Map.empty,
      pole_constraint = Map.empty,
      attrs = Map.empty,
      expressions = []\<rparr>"

definition start :: "'h \<Rightarrow> 'h world" where
  "start h = \<lparr>scene = h, trace = []\<rparr>"

text \<open>The limb scene with its three joints selected, before and after the tool has run.\<close>

definition limb_world :: "scene world" where
  "limb_world = start (limb_scene [''hip'', ''knee'', ''ankle''])"

definition built :: "scene world" where
  "built = snd (RigTheLimb maya 15 limb_world)"

text \<open>The same scene with another pole vector for new handles, and its IK stage run alone.\<close>

definition pole_world :: "MVector \<Rightarrow> scene world" where
  "pole_world p = start ((limb_scene [''hip'', ''knee'', ''ankle''])\<lparr>solver_pole := p\<rparr>)"

definition ik_built :: "MVector \<Rightarrow> scene world" where
  "ik_built p = snd (CreateIkControl maya 15 ''hip'' ''knee'' ''ankle'' (pole_world p))"

text \<open>The limb scene in which the name of the FK control of the knee is already taken.\<close>

definition taken_scene :: scene where
  "taken_scene =
     (limb_scene [''hip'', ''knee'', ''ankle''])
       \<lparr>nodes := [''hip'', ''knee'', ''ankle'', ''toe'', ''ac_fk_knee'']\<rparr>"


section \<open>Describing a run\<close>

text \<open>
  The calls a program adds to the trace, the value a call returned, and the host run over
  a list of commands on its own (without the tool in between).
\<close>

definition issued :: "'h world \<Rightarrow> 'h world \<Rightarrow> (cmd \<times> (error + val)) list" where
  "issued w w' = drop (length (trace w)) (trace w')"

definition answer :: "(cmd \<times> (error + val)) list \<Rightarrow> nat \<Rightarrow> val" where
  "answer tr i = (case snd (tr ! i) of Inr v \<Rightarrow> v | Inl _ \<Rightarrow> VNone)"

definition replied :: "cmd \<times> (error + val) \<Rightarrow> bool" where
  "replied x = (case snd x of Inr _ \<Rightarrow> True | Inl _ \<Rightarrow> False)"

fun run_calls :: "'h host \<Rightarrow> 'h \<Rightarrow> cmd list \<Rightarrow> (cmd \<times> (error + val)) list \<times> 'h" where
  "run_calls host s [] = ([], s)"
| "run_calls host s (c # cs) =
     (case host s c of (r, s1) \<Rightarrow>
        (case run_calls host s1 cs of (tr, s2) \<Rightarrow> ((c, r) # tr, s2)))"

text \<open>
  \<open>ran host w cs w'\<close>: from \<open>w\<close> to \<open>w'\<close> the commands \<open>cs\<close> were called, in this order and
  no others, each returned a value, and the scene of \<open>w'\<close> is what the host made of them.
\<close>

definition ran :: "'h host \<Rightarrow> 'h world \<Rightarrow> cmd list \<Rightarrow> 'h world \<Rightarrow> bool" where
  "ran host w cs w' =
     (trace w' = trace w @ issued w w' \<and> map fst (issued w w') = cs \<and>
      list_all replied (issued w w') \<and>
      run_calls host (scene w) cs = (issued w w', scene w'))"

text \<open>
  A program is \<open>plain\<close> when, from every world, it only appends to the trace, the scene it
  leaves is the one the host made of the calls it issued, a call that raised is the last
  one and its error is the result, and the trace it starts from does not matter.
\<close>

definition plain :: "'h host \<Rightarrow> ('h, 'a) prog \<Rightarrow> bool" where
  "plain host m =
     (\<forall>w. \<exists>new.
        trace (snd (m w)) = trace w @ new \<and>
        run_calls host (scene w) (map fst new) = (new, scene (snd (m w))) \<and>
        (\<forall>i e. i < length new \<and> snd (new ! i) = Inl e \<longrightarrow>
                fst (m w) = Inl e \<and> Suc i = length new) \<and>
        (\<forall>t. m (w\<lparr>trace := t\<rparr>) = (fst (m w), (snd (m w))\<lparr>trace := t @ new\<rparr>)))"

subsection \<open>The calls of a build that succeeds\<close>

definition fk_cmds :: "int \<Rightarrow> string \<Rightarrow> cmd list" where
  "fk_cmds sz jnt =
     [Circle (''ac_fk_'' @ jnt) sz (1, 0, 0),
      Group [''ac_fk_'' @ jnt] (''ac_fk_'' @ jnt @ ''_grp''),
      MatchTransform (''ac_fk_'' @ jnt @ ''_grp'') jnt,
      OrientConstraint (''ac_fk_'' @ jnt) jnt]"

definition ik_cmds :: "int \<Rightarrow> string \<Rightarrow> string \<Rightarrow> string \<Rightarrow> MVector \<Rightarrow> cmd list" where
  "ik_cmds sz rootJnt midJnt endJnt pos =
     [MelEval (ikEndCtrlCurve (''ac_ik_'' @ endJnt)),
      Scale sz sz sz (''ac_ik_'' @ endJnt) True,
      MakeIdentity (''ac_ik_'' @ endJnt) True,
      Group [''ac_ik_'' @ endJnt] (''ac_ik_'' @ endJnt @ ''_grp''),
      MatchTransform (''ac_ik_'' @ endJnt @ ''_grp'') endJnt,
      OrientConstraint (''ac_ik_'' @ endJnt) endJnt,
      IkHandle (''ikHandle_'' @ endJnt) rootJnt endJnt ''ikRPsolver'',
      Xform_q_t_ws rootJnt,
      Xform_q_t_ws endJnt,
      GetAttr (''ikHandle_'' @ endJnt @ ''.poleVector''),
      SpaceLocator (''ac_ik_'' @ midJnt),
      Group [''ac_ik_'' @ midJnt] (''ac_ik_'' @ midJnt @ ''_grp''),
      Move (vx pos) (vy pos) (vz pos) (''ac_ik_'' @ midJnt @ ''_grp''),
      Parent (''ikHandle_'' @ endJnt) (''ac_ik_'' @ endJnt),
      PoleVectorConstraint (''ac_ik_'' @ midJnt) (''ikHandle_'' @ endJnt),
      SetAttr (''ikHandle_'' @ endJnt @ ''.v'') 0]"

definition blend_attr :: "string \<Rightarrow> string" where
  "blend_attr rootJnt = ''ac_ikfk_blend_'' @ rootJnt @ ''.ikfk_blend''"

definition blend_cmds :: "string \<Rightarrow> string \<Rightarrow> string \<Rightarrow> MVector \<Rightarrow> string \<Rightarrow> cmd list" where
  "blend_cmds rootJnt midJnt endJnt pos con =
     [MelEval (ikfkBlendCtrlCurve (''ac_ikfk_blend_'' @ rootJnt)),
      Group [''ac_ikfk_blend_'' @ rootJnt] (''ac_ikfk_blend_'' @ rootJnt @ ''_grp''),
      Xform_q_t_ws rootJnt,
      Move (vx pos) (vy pos) (vz pos) (''ac_ikfk_blend_'' @ rootJnt @ ''_grp''),
      AddAttr (''ac_ikfk_blend_'' @ rootJnt) ''ikfk_blend'' True 0 1,
      Expression (''ac_fk_'' @ rootJnt @ ''_grp.v=1-'' @ blend_attr rootJnt @ '';''),
      Expression (''ac_ik_'' @ endJnt @ ''_grp.v='' @ blend_attr rootJnt),
      Expression (''ac_ik_'' @ midJnt @ ''_grp.v='' @ blend_attr rootJnt),
      Expression (''ikHandle_'' @ endJnt @ ''.ikBlend='' @ blend_attr rootJnt),
      ListConnections endJnt True ''orientConstraint'',
      Expression (con @ ''.ac_fk_'' @ endJnt @ ''W0=1-'' @ blend_attr rootJnt @ '';''),
      Expression (con @ ''.ac_ik_'' @ endJnt @ ''W1='' @ blend_attr rootJnt @ '';'')]"

definition top_group :: "string \<Rightarrow> string \<Rightarrow> string \<Rightarrow> cmd" where
  "top_group rootJnt midJnt endJnt =
     Group [''ac_fk_'' @ rootJnt @ ''_grp'', ''ac_ik_'' @ endJnt @ ''_grp'',
            ''ac_ik_'' @ midJnt @ ''_grp'', ''ac_ikfk_blend_'' @ rootJnt @ ''_grp'']
       (rootJnt @ ''_rig_grp'')"

definition joints_cmds ::
  "int \<Rightarrow> string \<Rightarrow> string \<Rightarrow> string \<Rightarrow> MVector \<Rightarrow> MVector \<Rightarrow> string \<Rightarrow> cmd list" where
  "joints_cmds sz rootJnt midJnt endJnt ikPos blendPos con =
     fk_cmds sz rootJnt @ fk_cmds sz midJnt @ fk_cmds sz endJnt @
     [Parent (''ac_fk_'' @ midJnt @ ''_grp'') (''ac_fk_'' @ rootJnt),
      Parent (''ac_fk_'' @ endJnt @ ''_grp'') (''ac_fk_'' @ midJnt)] @
     ik_cmds sz rootJnt midJnt endJnt ikPos @
     blend_cmds rootJnt midJnt endJnt blendPos con @
     [top_group rootJnt midJnt endJnt]"

definition rig_cmds ::
  "int \<Rightarrow> string \<Rightarrow> string \<Rightarrow> string \<Rightarrow> MVector \<Rightarrow> MVector \<Rightarrow> string \<Rightarrow> cmd list" where
  "rig_cmds sz rootJnt midJnt endJnt ikPos blendPos con =
     Ls_sl # joints_cmds sz rootJnt midJnt endJnt ikPos blendPos con"

text \<open>
  Helpers for following a run call by call: \<open>went host w0 tr w\<close> says that from \<open>w0\<close> to
  \<open>w\<close> exactly the calls of \<open>tr\<close> were made, with the replies of \<open>tr\<close>, all of them values;
  \<open>going host w0 tr w m y w'\<close> adds that the rest \<open>m\<close> of the program, run from \<open>w\<close>, returns
  \<open>y\<close> in the world \<open>w'\<close>.
\<close>

definition went :: "'h host \<Rightarrow> 'h world \<Rightarrow> (cmd \<times> (error + val)) list \<Rightarrow> 'h world \<Rightarrow> bool" where
  "went host w0 tr w =
     (trace w = trace w0 @ tr \<and> list_all replied tr \<and>
      run_calls host (scene w0) (map fst tr) = (tr, scene w))"

definition going ::
  "'h host \<Rightarrow> 'h world \<Rightarrow> (cmd \<times> (error + val)) list \<Rightarrow> 'h world \<Rightarrow>
     ('h, 'a) prog \<Rightarrow> 'a \<Rightarrow> 'h world \<Rightarrow> bool" where
  "going host w0 tr w m y w' = (went host w0 tr w \<and> m w = (Inr y, w'))"

definition fk_trace ::
  "int \<Rightarrow> string \<Rightarrow> val \<Rightarrow> val \<Rightarrow> val \<Rightarrow> val \<Rightarrow> (cmd \<times> (error + val)) list" where
  "fk_trace sz jnt v1 v2 v3 v4 = zip (fk_cmds sz jnt) [Inr v1, Inr v2, Inr v3, Inr v4]"

fun is_IkHandle :: "cmd \<Rightarrow> bool" where
  "is_IkHandle (IkHandle n sj ee sol) = True"
| "is_IkHandle c = False"

fun is_Parent :: "cmd \<Rightarrow> bool" where
  "is_Parent (Parent c p) = True"
| "is_Parent c = False"

fun is_Move :: "cmd \<Rightarrow> bool" where
  "is_Move (Move a b c n) = True"
| "is_Move c = False"

fun is_Expression :: "cmd \<Rightarrow> bool" where
  "is_Expression (Expression s) = True"
| "is_Expression c = False"

fun expression_text :: "cmd \<Rightarrow> string" where
  "expression_text (Expression s) = s"
| "expression_text c = []"

subsection \<open>Reading the expressions\<close>

text \<open>
  The tool writes expressions of two shapes, \<^verbatim>\<open>target=source\<close> and \<^verbatim>\<open>target=1-source\<close>,
  some closed by a semicolon. \<open>read_expression\<close> splits such a text at its first \<^verbatim>\<open>=\<close>;
  \<open>driven env e\<close> is the attribute the expression drives and the value it gives it when the
  attributes have the values \<open>env\<close>.
\<close>

datatype formula = Same string | OneMinus string

definition strip_semicolon :: "string \<Rightarrow> string" where
  "strip_semicolon s = (if s \<noteq> [] \<and> last s = CHR '';'' then butlast s else s)"

definition read_expression :: "string \<Rightarrow> string \<times> formula" where
  "read_expression s =
     (let target = takeWhile (\<lambda>c. c \<noteq> CHR ''='') s;
          rhs = strip_semicolon (drop 1 (dropWhile (\<lambda>c. c \<noteq> CHR ''='') s))
      in (target, if take 2 rhs = ''1-'' then OneMinus (drop 2 rhs) else Same rhs))"

fun eval_formula :: "(string \<Rightarrow> real) \<Rightarrow> formula \<Rightarrow> real" where
  "eval_formula env (Same a) = env a"
| "eval_formula env (OneMinus a) = 1 - env a"

definition driven :: "(string \<Rightarrow> real) \<Rightarrow> string \<Rightarrow> string \<times> real" where
  "driven env s = (fst (read_expression s), eval_formula env (snd (read_expression s)))"

subsection \<open>The hierarchy of the reference scene\<close>

definition children :: "scene \<Rightarrow> string \<Rightarrow> string list" where
  "children s g = filter (\<lambda>n. parent_of s n = Some g) (nodes s)"

text \<open>In a well-formed scene the parent of a node is a node.\<close>

definition wf_scene :: "scene \<Rightarrow> bool" where
  "wf_scene s =
     list_all (\<lambda>n. case parent_of s n of None \<Rightarrow> True | Some p \<Rightarrow> p \<in> set (nodes s)) (nodes s)"

text \<open>The nodes a command gives a new parent, and the nodes it creates.\<close>

fun reparents :: "cmd \<Rightarrow> string list" where
  "reparents (Group cs g) = cs"
| "reparents (Parent c p) = [c]"
| "reparents c = []"

fun creates :: "cmd \<Rightarrow> string list" where
  "creates (Circle n r nr) = [n]"
| "creates (SpaceLocator n) = [n]"
| "creates (MelEval str) = [curve_name str]"
| "creates (Group cs g) = [g]"
| "creates (IkHandle n sj ee sol) = [n]"
| "creates c = []"

section \<open>Following a run\<close>

lemma run_calls_append:
  "run_calls host s (cs @ ds) =
     (case run_calls host s cs of (tr, s1) \<Rightarrow>
        (case run_calls host s1 ds of (tr', s2) \<Rightarrow> (tr @ tr', s2)))"
  by (induction cs arbitrary: s) (auto split: prod.splits)

lemma then_do_Inr: "(then_do m f w = (Inr y, w')) = (\<exists>x w1. m w = (Inr x, w1) \<and> f x w1 = (Inr y, w'))"
  by (auto simp: then_do_def split: prod.splits sum.splits)

lemma call_Inr: "(call host c w = (Inr v, w')) =
   (\<exists>h'. host (scene w) c = (Inr v, h') \<and> w' = \<lparr>scene = h', trace = trace w @ [(c, Inr v)]\<rparr>)"
  by (auto simp: call_def split: prod.splits)

lemma lift_Inr: "(lift r w = (Inr x, w')) = (r = Inr x \<and> w' = w)"
  by (auto simp: lift_def)

lemma ret_Inr: "(ret x w = (Inr y, w')) = (y = x \<and> w' = w)"
  by (auto simp: ret_def)

lemma went_nil: "went host w [] w"
  by (simp add: went_def)

lemma went_trans: "went host w0 tr w \<Longrightarrow> went host w tr' w' \<Longrightarrow> went host w0 (tr @ tr') w'"
  by (simp add: went_def run_calls_append)

lemma went_call:
  "host (scene w) c = (Inr v, h) \<Longrightarrow> went host w [(c, Inr v)] \<lparr>scene = h, trace = trace w @ [(c, Inr v)]\<rparr>"
  by (simp add: went_def replied_def)

lemma went_issued: "went host w tr w' \<Longrightarrow> issued w w' = tr"
  by (simp add: went_def issued_def)

lemma went_ran: "went host w tr w' \<Longrightarrow> ran host w (map fst tr) w'"
  by (simp add: went_def issued_def ran_def)

lemma going_start: "m w = (Inr y, w') \<Longrightarrow> going host w [] w m y w'"
  by (simp add: going_def went_nil)

lemma going_callE:
  assumes "going host w0 tr w (then_do (call host c) f) y w'"
  obtains v w1 where "going host w0 (tr @ [(c, Inr v)]) w1 (f v) y w'"
proof -
  from assms obtain v h where h: "host (scene w) c = (Inr v, h)"
    and f: "f v \<lparr>scene = h, trace = trace w @ [(c, Inr v)]\<rparr> = (Inr y, w')"
    and w: "went host w0 tr w"
    by (auto simp: going_def then_do_Inr call_Inr)
  from went_trans[OF w went_call[of host w c v h, OF h]] f show thesis
    by (intro that[of v]) (simp add: going_def)
qed

lemma going_liftE:
  assumes "going host w0 tr w (then_do (lift r) f) y w'"
  obtains x where "r = Inr x" and "going host w0 tr w (f x) y w'"
  using assms by (auto simp: going_def then_do_Inr lift_Inr)

lemma going_retE:
  assumes "going host w0 tr w (ret x) y w'"
  obtains "y = x" and "went host w0 tr w'"
  using assms by (auto simp: going_def ret_Inr)

lemma going_thenE:
  assumes "going host w0 tr w (then_do m f) y w'"
  obtains x w1 where "m w = (Inr x, w1)" and "went host w0 tr w" and "f x w1 = (Inr y, w')"
  using assms by (auto simp: going_def then_do_Inr)

lemma CreateFKForJnt_went:
  assumes "CreateFKForJnt host sz jnt w = (Inr r, w')"
  shows "r = (''ac_fk_'' @ jnt, ''ac_fk_'' @ jnt @ ''_grp'') \<and>
         (\<exists>v1 v2 v3 v4. went host w (fk_trace sz jnt v1 v2 v3 v4) w')"
  using going_start[where m="CreateFKForJnt host sz jnt" and host=host, OF assms] unfolding CreateFKForJnt_def Let_def
  apply (elim going_callE going_retE)
  apply (simp add: fk_trace_def fk_cmds_def)
  apply blast
  done

lemma going_fkE:
  assumes "going host w0 tr w (then_do (CreateFKForJnt host sz jnt) f) y w'"
  obtains v1 v2 v3 v4 w1 where
    "going host w0 (tr @ fk_trace sz jnt v1 v2 v3 v4) w1
       (f (''ac_fk_'' @ jnt, ''ac_fk_'' @ jnt @ ''_grp'')) y w'"
proof -
  from assms obtain x w1 where m: "CreateFKForJnt host sz jnt w = (Inr x, w1)"
    and w: "went host w0 tr w" and f: "f x w1 = (Inr y, w')"
    by (rule going_thenE)
  from CreateFKForJnt_went[OF m] obtain v1 v2 v3 v4
    where x: "x = (''ac_fk_'' @ jnt, ''ac_fk_'' @ jnt @ ''_grp'')"
      and w1: "went host w (fk_trace sz jnt v1 v2 v3 v4) w1" by blast
  from went_trans[OF w w1] f x show thesis
    by (intro that[of v1 v2 v3 v4 w1]) (simp add: going_def)
qed


lemma CreateIkControl_went:
  assumes "CreateIkControl host sz rootJnt midJnt endJnt w = (Inr res, w')"
  shows "res = (''ac_ik_'' @ endJnt, ''ac_ik_'' @ endJnt @ ''_grp'', ''ac_ik_'' @ midJnt,
                ''ac_ik_'' @ midJnt @ ''_grp'', ''ikHandle_'' @ endJnt) \<and>
         (\<exists>v1 v2 v3 v4 v5 v6 v7 v8 v9 v10 v11 v12 v13 v14 v15 v16 r e pv.
             mvector_of_vals v8 = Inr r \<and> mvector_of_vals v9 = Inr e \<and>
             mvector_of_first_tuple v10 = Inr pv \<and>
             went host w
               (zip (ik_cmds sz rootJnt midJnt endJnt (midIkCtrlPos r e pv))
                  [Inr v1, Inr v2, Inr v3, Inr v4, Inr v5, Inr v6, Inr v7, Inr v8, Inr v9,
                   Inr v10, Inr v11, Inr v12, Inr v13, Inr v14, Inr v15, Inr v16]) w')"
  using going_start[where m="CreateIkControl host sz rootJnt midJnt endJnt" and host=host, OF assms]
  unfolding CreateIkControl_def Let_def
  apply (elim going_callE going_liftE going_retE)
  apply (simp add: ik_cmds_def)
  apply blast
  done

lemma going_ikE:
  assumes "going host w0 tr w (then_do (CreateIkControl host sz rootJnt midJnt endJnt) f) y w'"
  obtains v1 v2 v3 v4 v5 v6 v7 v8 v9 v10 v11 v12 v13 v14 v15 v16 r e pv w1 where
    "mvector_of_vals v8 = Inr r" "mvector_of_vals v9 = Inr e" "mvector_of_first_tuple v10 = Inr pv"
    "going host w0
       (tr @ zip (ik_cmds sz rootJnt midJnt endJnt (midIkCtrlPos r e pv))
                  [Inr v1, Inr v2, Inr v3, Inr v4, Inr v5, Inr v6, Inr v7, Inr v8, Inr v9,
                   Inr v10, Inr v11, Inr v12, Inr v13, Inr v14, Inr v15, Inr v16]) w1
       (f (''ac_ik_'' @ endJnt, ''ac_ik_'' @ endJnt @ ''_grp'', ''ac_ik_'' @ midJnt,
           ''ac_ik_'' @ midJnt @ ''_grp'', ''ikHandle_'' @ endJnt)) y w'"
proof -
  from assms obtain x w1 where m: "CreateIkControl host sz rootJnt midJnt endJnt w = (Inr x, w1)"
    and w: "went host w0 tr w" and f: "f x w1 = (Inr y, w')"
    by (rule going_thenE)
  from CreateIkControl_went[OF m] obtain v1 v2 v3 v4 v5 v6 v7 v8 v9 v10 v11 v12 v13 v14 v15 v16 r e pv
    where x: "x = (''ac_ik_'' @ endJnt, ''ac_ik_'' @ endJnt @ ''_grp'', ''ac_ik_'' @ midJnt,
                ''ac_ik_'' @ midJnt @ ''_grp'', ''ikHandle_'' @ endJnt)"
      and p: "mvector_of_vals v8 = Inr r" "mvector_of_vals v9 = Inr e"
             "mvector_of_first_tuple v10 = Inr pv"
      and w1: "went host w
               (zip (ik_cmds sz rootJnt midJnt endJnt (midIkCtrlPos r e pv))
                  [Inr v1, Inr v2, Inr v3, Inr v4, Inr v5, Inr v6, Inr v7, Inr v8, Inr v9,
                   Inr v10, Inr v11, Inr v12, Inr v13, Inr v14, Inr v15, Inr v16]) w1" by blast
  from went_trans[OF w w1] f x have
    "going host w0
       (tr @ zip (ik_cmds sz rootJnt midJnt endJnt (midIkCtrlPos r e pv))
                  [Inr v1, Inr v2, Inr v3, Inr v4, Inr v5, Inr v6, Inr v7, Inr v8, Inr v9,
                   Inr v10, Inr v11, Inr v12, Inr v13, Inr v14, Inr v15, Inr v16]) w1
       (f (''ac_ik_'' @ endJnt, ''ac_ik_'' @ endJnt @ ''_grp'', ''ac_ik_'' @ midJnt,
           ''ac_ik_'' @ midJnt @ ''_grp'', ''ikHandle_'' @ endJnt)) y w'"
    by (simp add: going_def)
  with p show thesis by (rule that)
qed

lemma RigTheLimb_joints_Inr:
  assumes "RigTheLimb_joints host sz rootJnt midJnt endJnt w = (Inr u, w')"
  shows "\<exists>r e pv p con.
           mvector_of_vals (answer (issued w w') 21) = Inr r \<and>
           mvector_of_vals (answer (issued w w') 22) = Inr e \<and>
           mvector_of_first_tuple (answer (issued w w') 23) = Inr pv \<and>
           mvector_of_vals (answer (issued w w') 32) = Inr p \<and>
           index_strs (answer (issued w w') 39) 0 = Inr con \<and>
           ran host w (joints_cmds sz rootJnt midJnt endJnt (midIkCtrlPos r e pv)
                         (ikfkBlendCtrlPos p) con) w'"
  using going_start[where m="RigTheLimb_joints host sz rootJnt midJnt endJnt" and host=host, OF assms]
  unfolding RigTheLimb_joints_def
  apply -
  apply (erule going_callE going_liftE going_retE going_fkE going_ikE | simp only: prod.case Let_def)+
  apply (frule went_issued)
  apply (drule went_ran)
  apply (simp add: joints_cmds_def fk_trace_def fk_cmds_def ik_cmds_def blend_cmds_def blend_attr_def top_group_def answer_def)
  done

lemma RigTheLimb_Inr:
  assumes "RigTheLimb host sz w = (Inr u, w')"
  shows "\<exists>rootJnt midJnt endJnt r e pv p con.
           index_strs (answer (issued w w') 0) 0 = Inr rootJnt \<and>
           index_strs (answer (issued w w') 0) 1 = Inr midJnt \<and>
           index_strs (answer (issued w w') 0) 2 = Inr endJnt \<and>
           mvector_of_vals (answer (issued w w') 22) = Inr r \<and>
           mvector_of_vals (answer (issued w w') 23) = Inr e \<and>
           mvector_of_first_tuple (answer (issued w w') 24) = Inr pv \<and>
           mvector_of_vals (answer (issued w w') 33) = Inr p \<and>
           index_strs (answer (issued w w') 40) 0 = Inr con \<and>
           ran host w (rig_cmds sz rootJnt midJnt endJnt (midIkCtrlPos r e pv)
                         (ikfkBlendCtrlPos p) con) w'"
  using going_start[where m="RigTheLimb host sz" and host=host, OF assms]
  unfolding RigTheLimb_def RigTheLimb_joints_def
  apply -
  apply (erule going_callE going_liftE going_retE going_fkE going_ikE | simp only: prod.case Let_def)+
  apply (frule went_issued)
  apply (drule went_ran)
  apply (simp add: rig_cmds_def joints_cmds_def fk_trace_def fk_cmds_def ik_cmds_def blend_cmds_def blend_attr_def top_group_def answer_def)
  done

section \<open>Every program of the tool is plain\<close>

lemma plain_ret: "plain host (ret x)"
  unfolding plain_def ret_def by (intro allI exI[of _ "[]"]) simp

lemma plain_lift: "plain host (lift r)"
  unfolding plain_def lift_def by (intro allI exI[of _ "[]"]) simp

lemma plain_call: "plain host (call host c)"
  unfolding plain_def
proof (intro allI)
  fix w :: "'a world"
  obtain r h where h: "host (scene w) c = (r, h)" by (cases "host (scene w) c")
  show "\<exists>new. trace (snd (call host c w)) = trace w @ new \<and>
          run_calls host (scene w) (map fst new) = (new, scene (snd (call host c w))) \<and>
          (\<forall>i e. i < length new \<and> snd (new ! i) = Inl e \<longrightarrow>
              fst (call host c w) = Inl e \<and> Suc i = length new) \<and>
          (\<forall>t. call host c (w\<lparr>trace := t\<rparr>) =
              (fst (call host c w), (snd (call host c w))\<lparr>trace := t @ new\<rparr>))"
    using h by (intro exI[of _ "[(c, r)]"]) (simp add: call_def)
qed

lemma plain_then_do:
  assumes m: "plain host m" and f: "\<And>x. plain host (f x)"
  shows "plain host (then_do m f)"
  unfolding plain_def
proof (intro allI)
  fix w :: "'a world"
  obtain r0 w1 where mw: "m w = (r0, w1)" by (cases "m w")
  from m[unfolded plain_def, rule_format, of w] mw obtain new1 where
    t1: "trace w1 = trace w @ new1" and
    r1: "run_calls host (scene w) (map fst new1) = (new1, scene w1)" and
    e1: "\<And>i e. i < length new1 \<Longrightarrow> snd (new1 ! i) = Inl e \<Longrightarrow>
            r0 = Inl e \<and> Suc i = length new1" and
    i1: "\<And>t. m (w\<lparr>trace := t\<rparr>) = (r0, w1\<lparr>trace := t @ new1\<rparr>)"
    by auto
  let ?goal = "\<lambda>new. trace (snd (then_do m f w)) = trace w @ new \<and>
          run_calls host (scene w) (map fst new) = (new, scene (snd (then_do m f w))) \<and>
          (\<forall>i e. i < length new \<and> snd (new ! i) = Inl e \<longrightarrow>
              fst (then_do m f w) = Inl e \<and> Suc i = length new) \<and>
          (\<forall>t. then_do m f (w\<lparr>trace := t\<rparr>) =
              (fst (then_do m f w), (snd (then_do m f w))\<lparr>trace := t @ new\<rparr>))"
  show "\<exists>new. ?goal new"
  proof (cases r0)
    case (Inl e)
    have td: "then_do m f w = (Inl e, w1)"
      using mw Inl by (simp add: then_do_def)
    have tdt: "then_do m f (w\<lparr>trace := t\<rparr>) = (Inl e, w1\<lparr>trace := t @ new1\<rparr>)" for t
      using i1[of t] Inl by (simp add: then_do_def)
    have "?goal new1"
      using t1 r1 e1 Inl by (auto simp add: td tdt)
    then show ?thesis ..
  next
    case (Inr x)
    obtain r2 w2 where fw: "f x w1 = (r2, w2)" by (cases "f x w1")
    from f[of x, unfolded plain_def, rule_format, of w1] fw obtain new2 where
      t2: "trace w2 = trace w1 @ new2" and
      r2: "run_calls host (scene w1) (map fst new2) = (new2, scene w2)" and
      e2: "\<And>i e. i < length new2 \<Longrightarrow> snd (new2 ! i) = Inl e \<Longrightarrow>
            r2 = Inl e \<and> Suc i = length new2" and
      i2: "\<And>t. f x (w1\<lparr>trace := t\<rparr>) = (r2, w2\<lparr>trace := t @ new2\<rparr>)"
      by auto
    have td: "then_do m f w = (r2, w2)"
      using mw Inr fw by (simp add: then_do_def)
    have tdt: "then_do m f (w\<lparr>trace := t\<rparr>) = (r2, w2\<lparr>trace := t @ new1 @ new2\<rparr>)" for t
      using i1[of t] i2[of "t @ new1"] Inr by (simp add: then_do_def)
    have e: "r2 = Inl e \<and> Suc i = length (new1 @ new2)"
      if "i < length (new1 @ new2)" "snd ((new1 @ new2) ! i) = Inl e" for i e
    proof (cases "i < length new1")
      case True
      with that e1[of i e] Inr show ?thesis by (simp add: nth_append)
    next
      case False
      with that have "i - length new1 < length new2" "snd (new2 ! (i - length new1)) = Inl e"
        by (auto simp: nth_append)
      from e2[OF this] False show ?thesis by auto
    qed
    have "?goal (new1 @ new2)"
      using t1 r1 t2 r2 e by (auto simp add: run_calls_append td tdt)
    then show ?thesis ..
  qed
qed

lemma plain_case_prod: "(\<And>a b. plain host (f a b)) \<Longrightarrow> plain host (case_prod f p)"
  by (cases p) simp

lemma plain_Let: "plain host (f t) \<Longrightarrow> plain host (Let t f)"
  by simp

lemmas plain_intros = plain_then_do plain_call plain_lift plain_ret plain_case_prod plain_Let

lemma plain_CreateFKForJnt: "plain host (CreateFKForJnt host sz jnt)"
  unfolding CreateFKForJnt_def by (intro plain_intros)

lemma plain_CreateIkControl: "plain host (CreateIkControl host sz rootJnt midJnt endJnt)"
  unfolding CreateIkControl_def by (intro plain_intros)

lemma plain_RigTheLimb_joints: "plain host (RigTheLimb_joints host sz rootJnt midJnt endJnt)"
  unfolding RigTheLimb_joints_def
  by (intro plain_intros plain_CreateFKForJnt plain_CreateIkControl)

lemma plain_RigTheLimb: "plain host (RigTheLimb host sz)"
  unfolding RigTheLimb_def
  by (intro plain_intros plain_RigTheLimb_joints)

lemma plain_issued:
  assumes "plain host m"
  shows "trace (snd (m w)) = trace w @ issued w (snd (m w)) \<and>
         run_calls host (scene w) (map fst (issued w (snd (m w)))) =
           (issued w (snd (m w)), scene (snd (m w))) \<and>
         (\<forall>i e. i < length (issued w (snd (m w))) \<and> snd (issued w (snd (m w)) ! i) = Inl e \<longrightarrow>
                fst (m w) = Inl e \<and> Suc i = length (issued w (snd (m w)))) \<and>
         (\<forall>t. m (w\<lparr>trace := t\<rparr>) = (fst (m w), (snd (m w))\<lparr>trace := t @ issued w (snd (m w))\<rparr>))"
proof -
  from assms[unfolded plain_def, rule_format, of w] obtain new where
    n: "trace (snd (m w)) = trace w @ new \<and>
        run_calls host (scene w) (map fst new) = (new, scene (snd (m w))) \<and>
        (\<forall>i e. i < length new \<and> snd (new ! i) = Inl e \<longrightarrow>
                fst (m w) = Inl e \<and> Suc i = length new) \<and>
        (\<forall>t. m (w\<lparr>trace := t\<rparr>) = (fst (m w), (snd (m w))\<lparr>trace := t @ new\<rparr>))"
    by blast
  then have "issued w (snd (m w)) = new" by (simp add: issued_def)
  with n show ?thesis by simp
qed

lemma run_calls_snoc:
  "run_calls host s (cs @ [c]) =
     (fst (run_calls host s cs) @ [(c, fst (host (snd (run_calls host s cs)) c))],
      snd (host (snd (run_calls host s cs)) c))"
  by (simp add: run_calls_append split: prod.splits)

lemma run_calls_failed_last:
  assumes r: "run_calls host s (map fst new) = (new, s')"
    and n: "new \<noteq> []" and e: "snd (last new) = Inl e"
    and quiet: "\<forall>s c. isl (fst (host s c)) \<longrightarrow> snd (host s c) = s"
  shows "s' = snd (run_calls host s (butlast (map fst new)))"
proof -
  from n have cs: "map fst new = butlast (map fst new) @ [last (map fst new)]" by simp
  let ?cs = "butlast (map fst new)" and ?c = "last (map fst new)"
  from r cs have r': "run_calls host s (?cs @ [?c]) = (new, s')" by simp
  then have new: "new = fst (run_calls host s ?cs) @ [(?c, fst (host (snd (run_calls host s ?cs)) ?c))]"
    and s': "s' = snd (host (snd (run_calls host s ?cs)) ?c)"
    by (simp_all add: run_calls_snoc)
  from new have "last new = (?c, fst (host (snd (run_calls host s ?cs)) ?c))"
    by (metis last_snoc)
  with e have "isl (fst (host (snd (run_calls host s ?cs)) ?c))" by simp
  with quiet s' show ?thesis by simp
qed

section \<open>The geometry of the pole-vector control\<close>

lemma CreateIkControl_Inr:
  assumes "CreateIkControl host sz rootJnt midJnt endJnt w = (Inr res, w')"
  shows "res = (''ac_ik_'' @ endJnt, ''ac_ik_'' @ endJnt @ ''_grp'', ''ac_ik_'' @ midJnt,
                ''ac_ik_'' @ midJnt @ ''_grp'', ''ikHandle_'' @ endJnt) \<and>
         (\<exists>r e pv. mvector_of_vals (answer (issued w w') 7) = Inr r \<and>
                   mvector_of_vals (answer (issued w w') 8) = Inr e \<and>
                   mvector_of_first_tuple (answer (issued w w') 9) = Inr pv \<and>
                   ran host w (ik_cmds sz rootJnt midJnt endJnt (midIkCtrlPos r e pv)) w')"
proof -
  from CreateIkControl_went[OF assms] obtain v1 v2 v3 v4 v5 v6 v7 v8 v9 v10 v11 v12 v13 v14 v15 v16 r e pv
    where res: "res = (''ac_ik_'' @ endJnt, ''ac_ik_'' @ endJnt @ ''_grp'', ''ac_ik_'' @ midJnt,
                ''ac_ik_'' @ midJnt @ ''_grp'', ''ikHandle_'' @ endJnt)"
      and p: "mvector_of_vals v8 = Inr r" "mvector_of_vals v9 = Inr e"
             "mvector_of_first_tuple v10 = Inr pv"
      and w1: "went host w
               (zip (ik_cmds sz rootJnt midJnt endJnt (midIkCtrlPos r e pv))
                  [Inr v1, Inr v2, Inr v3, Inr v4, Inr v5, Inr v6, Inr v7, Inr v8, Inr v9,
                   Inr v10, Inr v11, Inr v12, Inr v13, Inr v14, Inr v15, Inr v16]) w'" by blast
  from went_issued[OF w1] went_ran[OF w1] p res show ?thesis
    by (simp add: ik_cmds_def answer_def)
qed

lemma ran_cmds: "ran host w cs w' \<Longrightarrow> map fst (issued w w') = cs \<and> list_all replied (issued w w')"
  by (simp add: ran_def)

lemma sum3_squares_eq_0: "(x::real) * x + y * y + z * z = 0 \<longleftrightarrow> x = 0 \<and> y = 0 \<and> z = 0"
proof
  assume h: "x * x + y * y + z * z = 0"
  have "0 \<le> x * x" "0 \<le> y * y" "0 \<le> z * z" by simp_all
  with h have "x * x = 0" "y * y = 0" "z * z = 0" by linarith+
  then show "x = 0 \<and> y = 0 \<and> z = 0" by simp
qed simp

lemma vlength_eq_0: "vlength a = 0 \<longleftrightarrow> a = MVector 0 0 0"
  by (cases a) (simp add: vlength_def sum3_squares_eq_0)

lemma vlength_vmul: "vlength (vmul a k) = \<bar>k\<bar> * vlength a"
proof -
  have "vx a * k * (vx a * k) + vy a * k * (vy a * k) + vz a * k * (vz a * k) =
        (k * k) * (vx a * vx a + vy a * vy a + vz a * vz a)"
    by (simp add: algebra_simps)
  then show ?thesis
    by (simp add: vlength_def vmul_def real_sqrt_mult)
qed

lemma vdiv_vmul: "vdiv a k = vmul a (1 / k)"
  by (simp add: vdiv_def vmul_def)

lemma vlength_ge_0: "0 \<le> vlength a"
  by (simp add: vlength_def)

lemma vlength_vnormalize: "a \<noteq> MVector 0 0 0 \<Longrightarrow> vlength (vnormalize a) = 1"
  using vlength_ge_0[of a]
  by (simp add: vnormalize_def vlength_eq_0 vdiv_vmul vlength_vmul)

lemma vlength_half: "vlength (vdiv a 2) = 0.5 * vlength a"
  by (simp add: vdiv_vmul vlength_vmul)

lemma midIkCtrlPos_spec:
  "midIkCtrlPos r e pv =
     vadd (vadd r (vmul (vsub e r) 0.5))
          (vmul (vmul (vnormalize pv) 0.5) (vlength (vsub e r)))"
  unfolding midIkCtrlPos_def Let_def vlength_half
  by (simp add: vadd_def vmul_def vdiv_def)

lemma midIkCtrlPos_distance:
  assumes "pv \<noteq> MVector 0 0 0"
  shows "vlength (vsub (midIkCtrlPos r e pv) (vadd r (vmul (vsub e r) 0.5))) =
         0.5 * vlength (vsub e r)"
proof -
  have "vsub (midIkCtrlPos r e pv) (vadd r (vmul (vsub e r) 0.5)) =
        vmul (vnormalize pv) (0.5 * vlength (vsub e r))"
    by (simp add: midIkCtrlPos_spec vadd_def vsub_def vmul_def)
  moreover have "0 \<le> vlength (vsub e r)" by (rule vlength_ge_0)
  ultimately show ?thesis
    using vlength_vnormalize[OF assms] by (simp add: vlength_vmul)
qed

lemma nth_cmd: "map fst tr = cs \<Longrightarrow> i < length cs \<Longrightarrow> fst (tr ! i) = cs ! i"
  by (metis length_map nth_map)


section \<open>Runs on the reference scene\<close>

lemma take14_ikEndCtrlCurve: "take 14 (ikEndCtrlCurve n) = ''curve -d 1 -n ''"
  by (simp add: ikEndCtrlCurve_def)

lemma take14_ikfkBlendCtrlCurve: "take 14 (ikfkBlendCtrlCurve n) = ''curve -d 1 -n ''"
  by (simp add: ikfkBlendCtrlCurve_def)

lemma takeWhile_append_stop: "\<not> P y \<Longrightarrow> takeWhile P (xs @ y # ys) = takeWhile P xs"
  by (induction xs) auto

lemma curve_name_ikEndCtrlCurve:
  "curve_name (ikEndCtrlCurve n) = takeWhile (\<lambda>c. c \<noteq> CHR '' '') n"
proof -
  have "\<exists>rest. drop 14 (ikEndCtrlCurve n) = n @ CHR '' '' # rest"
    by (simp add: ikEndCtrlCurve_def)
  then show ?thesis
    by (auto simp add: curve_name_def takeWhile_append_stop)
qed

lemma curve_name_ikfkBlendCtrlCurve:
  "curve_name (ikfkBlendCtrlCurve n) = takeWhile (\<lambda>c. c \<noteq> CHR '' '') n"
proof -
  have "\<exists>rest. drop 14 (ikfkBlendCtrlCurve n) = n @ CHR '' '' # rest"
    by (simp add: ikfkBlendCtrlCurve_def)
  then show ?thesis
    by (auto simp add: curve_name_def takeWhile_append_stop)
qed

lemmas curve_simps = take14_ikEndCtrlCurve take14_ikfkBlendCtrlCurve
  curve_name_ikEndCtrlCurve curve_name_ikfkBlendCtrlCurve

lemmas run_defs = then_do_def call_def ret_def lift_def
  index_strs_def mvector_of_vals_def mvector_of_list_def mvector_of_first_tuple_def
  start_def limb_scene_def create_node_def fails_def node_of_attr_def Let_def

lemma limb_ik:
  "fst (CreateIkControl maya 15 ''hip'' ''knee'' ''ankle'' (pole_world p)) =
     Inr (''ac_ik_ankle'', ''ac_ik_ankle_grp'', ''ac_ik_knee'', ''ac_ik_knee_grp'',
          ''ikHandle_ankle'')"
  "answer (issued (pole_world p) (ik_built p)) 7 = VNums [3, 0, 0]"
  "answer (issued (pole_world p) (ik_built p)) 8 = VNums [3, 8, 0]"
  "answer (issued (pole_world p) (ik_built p)) 9 = VTuples [[vx p, vy p, vz p]]"
  by (simp_all add: ik_built_def CreateIkControl_def pole_world_def run_defs curve_simps
      issued_def answer_def)

lemma limb_ik_run:
  "CreateIkControl maya 15 ''hip'' ''knee'' ''ankle'' (pole_world p) =
     (Inr (''ac_ik_ankle'', ''ac_ik_ankle_grp'', ''ac_ik_knee'', ''ac_ik_knee_grp'',
           ''ikHandle_ankle''), ik_built p)"
  using limb_ik(1)[of p] unfolding ik_built_def by (metis prod.collapse)

lemma sqrt_9: "sqrt 9 = 3"
  by (rule real_sqrt_unique) simp_all

lemma sqrt_16: "sqrt 16 = 4"
  by (rule real_sqrt_unique) simp_all

lemma limb_facts:
  "case RigTheLimb maya 15 (start (limb_scene (''hip'' # ''knee'' # ''ankle'' # rest))) of
     (r, w) \<Rightarrow>
       r = Inr () \<and>
       answer (trace w) 0 = VStrs (''hip'' # ''knee'' # ''ankle'' # rest) \<and>
       answer (trace w) 33 = VNums [3, 0, 0] \<and>
       answer (trace w) 40 = VStrs [''ankle_orientConstraint1''] \<and>
       translation (scene w) ''ac_ikfk_blend_hip_grp'' = Some (MVector 6 0 0) \<and>
       expressions (scene w) =
         [''ac_fk_hip_grp.v=1-ac_ikfk_blend_hip.ikfk_blend;'',
          ''ac_ik_ankle_grp.v=ac_ikfk_blend_hip.ikfk_blend'',
          ''ac_ik_knee_grp.v=ac_ikfk_blend_hip.ikfk_blend'',
          ''ikHandle_ankle.ikBlend=ac_ikfk_blend_hip.ikfk_blend'',
          ''ankle_orientConstraint1.ac_fk_ankleW0=1-ac_ikfk_blend_hip.ikfk_blend;'',
          ''ankle_orientConstraint1.ac_ik_ankleW1=ac_ikfk_blend_hip.ikfk_blend;'']"
  by (simp add: RigTheLimb_def RigTheLimb_joints_def CreateFKForJnt_def CreateIkControl_def
      run_defs curve_simps answer_def ikfkBlendCtrlPos_def vadd_def)

lemma limb_build:
  "fst (RigTheLimb maya 15 (start (limb_scene (''hip'' # ''knee'' # ''ankle'' # rest)))) = Inr ()"
  using limb_facts[of rest] by (simp add: case_prod_beta)

lemma limb_run: "RigTheLimb maya 15 limb_world = (Inr (), built)"
  using limb_build[of "[]"] unfolding built_def limb_world_def by (metis prod.collapse)

lemma limb_built:
  "answer (issued limb_world built) 0 = VStrs [''hip'', ''knee'', ''ankle'']"
  "answer (issued limb_world built) 33 = VNums [3, 0, 0]"
  "answer (issued limb_world built) 40 = VStrs [''ankle_orientConstraint1'']"
  "translation (scene built) ''ac_ikfk_blend_hip_grp'' = Some (MVector 6 0 0)"
  "expressions (scene built) =
         [''ac_fk_hip_grp.v=1-ac_ikfk_blend_hip.ikfk_blend;'',
          ''ac_ik_ankle_grp.v=ac_ikfk_blend_hip.ikfk_blend'',
          ''ac_ik_knee_grp.v=ac_ikfk_blend_hip.ikfk_blend'',
          ''ikHandle_ankle.ikBlend=ac_ikfk_blend_hip.ikfk_blend'',
          ''ankle_orientConstraint1.ac_fk_ankleW0=1-ac_ikfk_blend_hip.ikfk_blend;'',
          ''ankle_orientConstraint1.ac_ik_ankleW1=ac_ikfk_blend_hip.ikfk_blend;'']"
  using limb_facts[of "[]"] unfolding built_def limb_world_def issued_def
  by (simp_all add: case_prod_beta start_def)

lemma limb_names:
  "index_strs (answer (issued limb_world built) 0) 0 = Inr ''hip''"
  "index_strs (answer (issued limb_world built) 0) 1 = Inr ''knee''"
  "index_strs (answer (issued limb_world built) 0) 2 = Inr ''ankle''"
  "mvector_of_vals (answer (issued limb_world built) 33) = Inr (MVector 3 0 0)"
  "index_strs (answer (issued limb_world built) 40) 0 = Inr ''ankle_orientConstraint1''"
  unfolding limb_built
  by (simp_all add: index_strs_def mvector_of_vals_def mvector_of_list_def)

lemma maya_failure_quiet: "isl (fst (maya s c)) \<Longrightarrow> snd (maya s c) = s"
  by (cases c) (auto simp: fails_def create_node_def split: if_splits option.splits)

lemmas taken_defs = RigTheLimb_def RigTheLimb_joints_def CreateFKForJnt_def taken_scene_def
  run_defs fk_cmds_def issued_def

lemma taken_run:
  "fst (RigTheLimb maya 15 (start taken_scene)) = Inl (RuntimeError ''name is not unique'')"
  "map fst (issued (start taken_scene) (snd (RigTheLimb maya 15 (start taken_scene)))) =
     Ls_sl # fk_cmds 15 ''hip'' @ [Circle ''ac_fk_knee'' 15 (1, 0, 0)]"
  "snd (last (issued (start taken_scene) (snd (RigTheLimb maya 15 (start taken_scene))))) =
     Inl (RuntimeError ''name is not unique'')"
  "nodes (scene (snd (RigTheLimb maya 15 (start taken_scene)))) =
     [''hip'', ''knee'', ''ankle'', ''toe'', ''ac_fk_knee'', ''ac_fk_hip'', ''ac_fk_hip_grp'']"
  by (simp_all add: taken_defs)


section \<open>The calls and expressions of the blend stage\<close>

lemma rig_cmds_nth:
  "rig_cmds sz rootJnt midJnt endJnt ikPos blendPos con ! 12 =
     OrientConstraint (''ac_fk_'' @ endJnt) endJnt"
  "rig_cmds sz rootJnt midJnt endJnt ikPos blendPos con ! 20 =
     OrientConstraint (''ac_ik_'' @ endJnt) endJnt"
  "rig_cmds sz rootJnt midJnt endJnt ikPos blendPos con ! 33 = Xform_q_t_ws rootJnt"
  "rig_cmds sz rootJnt midJnt endJnt ikPos blendPos con ! 34 =
     Move (vx blendPos) (vy blendPos) (vz blendPos) (''ac_ikfk_blend_'' @ rootJnt @ ''_grp'')"
  "rig_cmds sz rootJnt midJnt endJnt ikPos blendPos con ! 40 =
     ListConnections endJnt True ''orientConstraint''"
  "rig_cmds sz rootJnt midJnt endJnt ikPos blendPos con ! 41 =
     Expression (con @ ''.ac_fk_'' @ endJnt @ ''W0=1-'' @ blend_attr rootJnt @ '';'')"
  "rig_cmds sz rootJnt midJnt endJnt ikPos blendPos con ! 42 =
     Expression (con @ ''.ac_ik_'' @ endJnt @ ''W1='' @ blend_attr rootJnt @ '';'')"
  "length (rig_cmds sz rootJnt midJnt endJnt ikPos blendPos con) = 44"
  by (simp_all add: rig_cmds_def joints_cmds_def fk_cmds_def ik_cmds_def blend_cmds_def
      top_group_def)

lemma rig_cmds_moves:
  "filter is_Move (drop 34 (rig_cmds sz rootJnt midJnt endJnt ikPos blendPos con)) =
     [Move (vx blendPos) (vy blendPos) (vz blendPos) (''ac_ikfk_blend_'' @ rootJnt @ ''_grp'')]"
  by (simp add: rig_cmds_def joints_cmds_def fk_cmds_def ik_cmds_def blend_cmds_def
      top_group_def)

lemma rig_cmds_expressions:
  "map expression_text
     (filter is_Expression (rig_cmds sz rootJnt midJnt endJnt ikPos blendPos con)) =
     [''ac_fk_'' @ rootJnt @ ''_grp.v=1-'' @ blend_attr rootJnt @ '';'',
      ''ac_ik_'' @ endJnt @ ''_grp.v='' @ blend_attr rootJnt,
      ''ac_ik_'' @ midJnt @ ''_grp.v='' @ blend_attr rootJnt,
      ''ikHandle_'' @ endJnt @ ''.ikBlend='' @ blend_attr rootJnt,
      con @ ''.ac_fk_'' @ endJnt @ ''W0=1-'' @ blend_attr rootJnt @ '';'',
      con @ ''.ac_ik_'' @ endJnt @ ''W1='' @ blend_attr rootJnt @ '';'']"
  by (simp add: rig_cmds_def joints_cmds_def fk_cmds_def ik_cmds_def blend_cmds_def
      top_group_def)

lemma takeWhile_upto: "c \<notin> set t \<Longrightarrow> takeWhile (\<lambda>x. x \<noteq> c) (t @ c # rest) = t"
  by (induction t) auto

lemma dropWhile_upto: "c \<notin> set t \<Longrightarrow> dropWhile (\<lambda>x. x \<noteq> c) (t @ c # rest) = c # rest"
  by (induction t) auto

lemma strip_blend_semicolon: "strip_semicolon (blend_attr r @ '';'') = blend_attr r"
  by (simp add: strip_semicolon_def blend_attr_def butlast_append)

lemma strip_one_minus_blend: "strip_semicolon (''1-'' @ blend_attr r @ '';'') = ''1-'' @ blend_attr r"
  by (simp add: strip_semicolon_def blend_attr_def butlast_append)

lemma strip_blend: "strip_semicolon (blend_attr r) = blend_attr r"
  by (simp add: strip_semicolon_def blend_attr_def)

lemma take2_blend: "take 2 (blend_attr r) = ''ac''"
  by (simp add: blend_attr_def)

lemma read_one_minus:
  "CHR ''='' \<notin> set t \<Longrightarrow>
     read_expression (t @ ''=1-'' @ blend_attr r @ '';'') = (t, OneMinus (blend_attr r))"
  using strip_one_minus_blend[of r]
  by (simp add: read_expression_def takeWhile_upto dropWhile_upto)

lemma read_same:
  "CHR ''='' \<notin> set t \<Longrightarrow> read_expression (t @ ''='' @ blend_attr r) = (t, Same (blend_attr r))"
  by (simp add: read_expression_def takeWhile_upto dropWhile_upto strip_blend take2_blend)

lemma read_same_semicolon:
  "CHR ''='' \<notin> set t \<Longrightarrow>
     read_expression (t @ ''='' @ blend_attr r @ '';'') = (t, Same (blend_attr r))"
  by (simp add: read_expression_def takeWhile_upto dropWhile_upto strip_blend_semicolon take2_blend)

lemma driven_one_minus:
  assumes "CHR ''='' \<notin> set t"
  shows "driven env (t @ ''=1-'' @ blend_attr r @ '';'') = (t, 1 - env (blend_attr r))"
  unfolding driven_def read_one_minus[OF assms] by simp

lemma driven_same:
  assumes "CHR ''='' \<notin> set t"
  shows "driven env (t @ ''='' @ blend_attr r) = (t, env (blend_attr r))"
  unfolding driven_def read_same[OF assms] by simp

lemma driven_same_semicolon:
  assumes "CHR ''='' \<notin> set t"
  shows "driven env (t @ ''='' @ blend_attr r @ '';'') = (t, env (blend_attr r))"
  unfolding driven_def read_same_semicolon[OF assms] by simp

lemma driven_expressions:
  assumes "CHR ''='' \<notin> set rootJnt" "CHR ''='' \<notin> set midJnt" "CHR ''='' \<notin> set endJnt"
    "CHR ''='' \<notin> set con"
  shows
    "driven env (''ac_fk_'' @ rootJnt @ ''_grp.v=1-'' @ blend_attr rootJnt @ '';'') =
       (''ac_fk_'' @ rootJnt @ ''_grp.v'', 1 - env (blend_attr rootJnt))"
    "driven env (''ac_ik_'' @ endJnt @ ''_grp.v='' @ blend_attr rootJnt) =
       (''ac_ik_'' @ endJnt @ ''_grp.v'', env (blend_attr rootJnt))"
    "driven env (''ac_ik_'' @ midJnt @ ''_grp.v='' @ blend_attr rootJnt) =
       (''ac_ik_'' @ midJnt @ ''_grp.v'', env (blend_attr rootJnt))"
    "driven env (''ikHandle_'' @ endJnt @ ''.ikBlend='' @ blend_attr rootJnt) =
       (''ikHandle_'' @ endJnt @ ''.ikBlend'', env (blend_attr rootJnt))"
    "driven env (con @ ''.ac_fk_'' @ endJnt @ ''W0=1-'' @ blend_attr rootJnt @ '';'') =
       (con @ ''.ac_fk_'' @ endJnt @ ''W0'', 1 - env (blend_attr rootJnt))"
    "driven env (con @ ''.ac_ik_'' @ endJnt @ ''W1='' @ blend_attr rootJnt @ '';'') =
       (con @ ''.ac_ik_'' @ endJnt @ ''W1'', env (blend_attr rootJnt))"
proof -
  show "driven env (''ac_fk_'' @ rootJnt @ ''_grp.v=1-'' @ blend_attr rootJnt @ '';'') =
       (''ac_fk_'' @ rootJnt @ ''_grp.v'', 1 - env (blend_attr rootJnt))"
    using driven_one_minus[of "''ac_fk_'' @ rootJnt @ ''_grp.v''" env rootJnt] assms by simp
  show "driven env (''ac_ik_'' @ endJnt @ ''_grp.v='' @ blend_attr rootJnt) =
       (''ac_ik_'' @ endJnt @ ''_grp.v'', env (blend_attr rootJnt))"
    using driven_same[of "''ac_ik_'' @ endJnt @ ''_grp.v''" env rootJnt] assms by simp
  show "driven env (''ac_ik_'' @ midJnt @ ''_grp.v='' @ blend_attr rootJnt) =
       (''ac_ik_'' @ midJnt @ ''_grp.v'', env (blend_attr rootJnt))"
    using driven_same[of "''ac_ik_'' @ midJnt @ ''_grp.v''" env rootJnt] assms by simp
  show "driven env (''ikHandle_'' @ endJnt @ ''.ikBlend='' @ blend_attr rootJnt) =
       (''ikHandle_'' @ endJnt @ ''.ikBlend'', env (blend_attr rootJnt))"
    using driven_same[of "''ikHandle_'' @ endJnt @ ''.ikBlend''" env rootJnt] assms by simp
  show "driven env (con @ ''.ac_fk_'' @ endJnt @ ''W0=1-'' @ blend_attr rootJnt @ '';'') =
       (con @ ''.ac_fk_'' @ endJnt @ ''W0'', 1 - env (blend_attr rootJnt))"
    using driven_one_minus[of "con @ ''.ac_fk_'' @ endJnt @ ''W0''" env rootJnt] assms by simp
  show "driven env (con @ ''.ac_ik_'' @ endJnt @ ''W1='' @ blend_attr rootJnt @ '';'') =
       (con @ ''.ac_ik_'' @ endJnt @ ''W1'', env (blend_attr rootJnt))"
    using driven_same_semicolon[of "con @ ''.ac_ik_'' @ endJnt @ ''W1''" env rootJnt] assms by simp
qed



lemma ikfkBlendCtrlPos_spec: "ikfkBlendCtrlPos p = MVector (2 * vx p) (vy p) (vz p)"
  by (cases p) (simp add: ikfkBlendCtrlPos_def vadd_def)

lemma rig_cmds_attr:
  "rig_cmds sz rootJnt midJnt endJnt ikPos blendPos con ! 35 =
     AddAttr (''ac_ikfk_blend_'' @ rootJnt) ''ikfk_blend'' True 0 1"
  "filter is_Expression (take 36 (rig_cmds sz rootJnt midJnt endJnt ikPos blendPos con)) = []"
  by (simp_all add: rig_cmds_def joints_cmds_def fk_cmds_def ik_cmds_def blend_cmds_def
      top_group_def)

lemma expressions_issued:
  assumes "RigTheLimb host sz w = (Inr u, w')"
    and "index_strs (answer (issued w w') 0) 0 = Inr rootJnt"
    and "index_strs (answer (issued w w') 0) 1 = Inr midJnt"
    and "index_strs (answer (issued w w') 0) 2 = Inr endJnt"
    and "index_strs (answer (issued w w') 40) 0 = Inr con"
  shows "fst (issued w w' ! 35) = AddAttr (''ac_ikfk_blend_'' @ rootJnt) ''ikfk_blend'' True 0 1"
    and "filter is_Expression (take 36 (map fst (issued w w'))) = []"
    and "map expression_text (filter is_Expression (map fst (issued w w'))) =
             [''ac_fk_'' @ rootJnt @ ''_grp.v=1-'' @ blend_attr rootJnt @ '';'',
              ''ac_ik_'' @ endJnt @ ''_grp.v='' @ blend_attr rootJnt,
              ''ac_ik_'' @ midJnt @ ''_grp.v='' @ blend_attr rootJnt,
              ''ikHandle_'' @ endJnt @ ''.ikBlend='' @ blend_attr rootJnt,
              con @ ''.ac_fk_'' @ endJnt @ ''W0=1-'' @ blend_attr rootJnt @ '';'',
              con @ ''.ac_ik_'' @ endJnt @ ''W1='' @ blend_attr rootJnt @ '';'']"
proof -
  from RigTheLimb_Inr[OF assms(1)] obtain rootJnt' midJnt' endJnt' r e pv p con' where
    n: "index_strs (answer (issued w w') 0) 0 = Inr rootJnt'"
       "index_strs (answer (issued w w') 0) 1 = Inr midJnt'"
       "index_strs (answer (issued w w') 0) 2 = Inr endJnt'"
       "index_strs (answer (issued w w') 40) 0 = Inr con'" and
    ran: "ran host w (rig_cmds sz rootJnt' midJnt' endJnt' (midIkCtrlPos r e pv)
                         (ikfkBlendCtrlPos p) con') w'"
    by blast
  from n assms(2-5) have "rootJnt' = rootJnt" "midJnt' = midJnt" "endJnt' = endJnt" "con' = con"
    by simp_all
  with ran have ran: "ran host w (rig_cmds sz rootJnt midJnt endJnt (midIkCtrlPos r e pv)
                         (ikfkBlendCtrlPos p) con) w'"
    by simp
  let ?cs = "rig_cmds sz rootJnt midJnt endJnt (midIkCtrlPos r e pv) (ikfkBlendCtrlPos p) con"
  from ran_cmds[OF ran] have cs: "map fst (issued w w') = ?cs" by simp
  show "fst (issued w w' ! 35) =
              AddAttr (''ac_ikfk_blend_'' @ rootJnt) ''ikfk_blend'' True 0 1"
    using nth_cmd[OF cs, of 35] by (simp add: rig_cmds_nth rig_cmds_attr)
  show "filter is_Expression (take 36 (map fst (issued w w'))) = []"
    unfolding cs by (rule rig_cmds_attr)
  show "map expression_text (filter is_Expression (map fst (issued w w'))) =
             [''ac_fk_'' @ rootJnt @ ''_grp.v=1-'' @ blend_attr rootJnt @ '';'',
              ''ac_ik_'' @ endJnt @ ''_grp.v='' @ blend_attr rootJnt,
              ''ac_ik_'' @ midJnt @ ''_grp.v='' @ blend_attr rootJnt,
              ''ikHandle_'' @ endJnt @ ''.ikBlend='' @ blend_attr rootJnt,
              con @ ''.ac_fk_'' @ endJnt @ ''W0=1-'' @ blend_attr rootJnt @ '';'',
              con @ ''.ac_ik_'' @ endJnt @ ''W1='' @ blend_attr rootJnt @ '';'']"
    unfolding cs by (rule rig_cmds_expressions)
qed


section \<open>The hierarchy a build leaves on the reference scene graph\<close>

lemma replied_Inr: "replied (c, r) = (\<exists>v. r = Inr v)"
  by (cases r) (simp_all add: replied_def)

lemma maya_nodes:
  "maya s c = (Inr v, s1) \<Longrightarrow>
     set (nodes s1) = set (nodes s) \<union> set (creates c) \<and> set (creates c) \<inter> set (nodes s) = {}"
  by (cases c) (auto simp: fails_def create_node_def split: if_splits option.splits)

lemma maya_parent_kept:
  "maya s c = (Inr v, s1) \<Longrightarrow> x \<in> set (nodes s) \<Longrightarrow> x \<notin> set (reparents c) \<Longrightarrow>
     parent_of s1 x = parent_of s x"
  by (cases c) (auto simp: fails_def create_node_def split: if_splits option.splits)

lemma maya_wf: "maya s c = (Inr v, s1) \<Longrightarrow> wf_scene s \<Longrightarrow> wf_scene s1"
  by (cases c)
     (auto simp: fails_def create_node_def wf_scene_def list_all_iff
           split: if_splits option.splits)

lemma run_calls_ConsE:
  assumes "run_calls host s (c # cs) = (tr, s')" and "list_all replied tr"
  obtains v s1 tr1 where "host s c = (Inr v, s1)" and "run_calls host s1 cs = (tr1, s')"
    and "list_all replied tr1" and "tr = (c, Inr v) # tr1"
  using assms by (auto simp: replied_Inr split: prod.splits)

lemma run_nodes:
  "run_calls maya s cs = (tr, s') \<Longrightarrow> list_all replied tr \<Longrightarrow>
     set (nodes s') = set (nodes s) \<union> set (concat (map creates cs)) \<and>
     distinct (concat (map creates cs)) \<and>
     set (concat (map creates cs)) \<inter> set (nodes s) = {}"
proof (induction cs arbitrary: s tr)
  case Nil
  then show ?case by simp
next
  case (Cons c cs)
  from Cons.prems obtain v s1 tr1 where
    1: "maya s c = (Inr v, s1)" and 2: "run_calls maya s1 cs = (tr1, s')" and
    3: "list_all replied tr1"
    by (rule run_calls_ConsE)
  have d: "distinct (creates c)" by (cases c) simp_all
  from maya_nodes[OF 1] Cons.IH[OF 2 3] d show ?case by auto
qed

lemma run_parent_kept:
  "run_calls maya s cs = (tr, s') \<Longrightarrow> list_all replied tr \<Longrightarrow> x \<in> set (nodes s) \<Longrightarrow>
     x \<notin> set (concat (map reparents cs)) \<Longrightarrow> parent_of s' x = parent_of s x"
proof (induction cs arbitrary: s tr)
  case Nil
  then show ?case by simp
next
  case (Cons c cs)
  from Cons.prems(1,2) obtain v s1 tr1 where
    1: "maya s c = (Inr v, s1)" and 2: "run_calls maya s1 cs = (tr1, s')" and
    3: "list_all replied tr1"
    by (rule run_calls_ConsE)
  from Cons.prems(3) maya_nodes[OF 1] have x: "x \<in> set (nodes s1)" by simp
  from Cons.prems(4) have "x \<notin> set (reparents c)" "x \<notin> set (concat (map reparents cs))"
    by simp_all
  with maya_parent_kept[OF 1 Cons.prems(3)] Cons.IH[OF 2 3 x] show ?case by simp
qed

lemma run_wf:
  "run_calls maya s cs = (tr, s') \<Longrightarrow> list_all replied tr \<Longrightarrow> wf_scene s \<Longrightarrow> wf_scene s'"
proof (induction cs arbitrary: s tr)
  case Nil
  then show ?case by simp
next
  case (Cons c cs)
  from Cons.prems(1,2) obtain v s1 tr1 where
    1: "maya s c = (Inr v, s1)" and 2: "run_calls maya s1 cs = (tr1, s')" and
    3: "list_all replied tr1"
    by (rule run_calls_ConsE)
  from Cons.IH[OF 2 3 maya_wf[OF 1 Cons.prems(3)]] show ?case .
qed

lemma maya_reparented:
  "maya s c = (Inr v, s1) \<Longrightarrow> c = Parent x p \<or> (c = Group gs p \<and> x \<in> set gs) \<Longrightarrow>
     parent_of s1 x = Some p \<and> x \<in> set (nodes s1)"
  by (cases c) (auto simp: fails_def split: if_splits)

lemma run_reparented:
  "run_calls maya s cs = (tr, s') \<Longrightarrow> list_all replied tr \<Longrightarrow> i < length cs \<Longrightarrow>
     cs ! i = Parent x p \<or> (cs ! i = Group gs p \<and> x \<in> set gs) \<Longrightarrow>
     x \<notin> set (concat (map reparents (drop (Suc i) cs))) \<Longrightarrow> parent_of s' x = Some p"
proof (induction cs arbitrary: s tr i)
  case Nil
  then show ?case by simp
next
  case (Cons c cs)
  from Cons.prems(1,2) obtain v s1 tr1 where
    1: "maya s c = (Inr v, s1)" and 2: "run_calls maya s1 cs = (tr1, s')" and
    3: "list_all replied tr1"
    by (rule run_calls_ConsE)
  show ?case
  proof (cases i)
    case 0
    with Cons.prems(4) have c: "c = Parent x p \<or> (c = Group gs p \<and> x \<in> set gs)" by simp
    from 0 Cons.prems(5) have n: "x \<notin> set (concat (map reparents cs))" by simp
    from maya_reparented[OF 1 c] run_parent_kept[OF 2 3 _ n] show ?thesis by simp
  next
    case (Suc j)
    with Cons.prems(3,4,5) Cons.IH[OF 2 3, of j] show ?thesis by simp
  qed
qed

lemma maya_group:
  assumes "maya s (Group gs g) = (Inr v, s1)" and "wf_scene s"
  shows "set (children s1 g) = set gs \<and> parent_of s1 g = None \<and> g \<in> set (nodes s1) \<and>
         g \<notin> set (nodes s) \<and> g \<notin> set gs"
proof -
  from assms(1) have gs: "set gs \<subseteq> set (nodes s)" and g: "g \<notin> set (nodes s)" and
    s1: "s1 = s\<lparr>nodes := nodes s @ [g],
              parent_of := (\<lambda>n. if n = g then None
                                 else if n \<in> set gs then Some g else parent_of s n),
              translation := (translation s)(g \<mapsto> MVector 0 0 0)\<rparr>"
    by (auto simp: fails_def split: if_splits)
  from assms(2) g have "\<forall>n \<in> set (nodes s). parent_of s n \<noteq> Some g"
    by (auto simp: wf_scene_def list_all_iff split: option.splits)
  with gs g show ?thesis unfolding s1 children_def by auto
qed

lemma children_parent:
  "set (children s g) = set xs \<Longrightarrow> list_all (\<lambda>x. parent_of s x = Some g) xs"
  by (auto simp: children_def list_all_iff)

lemma run_calls_snocE:
  assumes "run_calls host s (cs @ [c]) = (tr, s')" and "list_all replied tr"
  obtains v s0 tr0 where "run_calls host s cs = (tr0, s0)" and "list_all replied tr0"
    and "host s0 c = (Inr v, s')"
  using assms by (auto simp: run_calls_append replied_Inr split: prod.splits)

lemma rig_cmds_hierarchy:
  "rig_cmds sz rootJnt midJnt endJnt ikPos blendPos con ! 13 =
     Parent (''ac_fk_'' @ midJnt @ ''_grp'') (''ac_fk_'' @ rootJnt)"
  "rig_cmds sz rootJnt midJnt endJnt ikPos blendPos con ! 14 =
     Parent (''ac_fk_'' @ endJnt @ ''_grp'') (''ac_fk_'' @ midJnt)"
  "concat (map reparents (drop 14 (rig_cmds sz rootJnt midJnt endJnt ikPos blendPos con))) =
     [''ac_fk_'' @ endJnt @ ''_grp'', ''ac_ik_'' @ endJnt, ''ac_ik_'' @ midJnt,
      ''ikHandle_'' @ endJnt, ''ac_ikfk_blend_'' @ rootJnt, ''ac_fk_'' @ rootJnt @ ''_grp'',
      ''ac_ik_'' @ endJnt @ ''_grp'', ''ac_ik_'' @ midJnt @ ''_grp'',
      ''ac_ikfk_blend_'' @ rootJnt @ ''_grp'']"
  "concat (map reparents (drop 15 (rig_cmds sz rootJnt midJnt endJnt ikPos blendPos con))) =
     [''ac_ik_'' @ endJnt, ''ac_ik_'' @ midJnt,
      ''ikHandle_'' @ endJnt, ''ac_ikfk_blend_'' @ rootJnt, ''ac_fk_'' @ rootJnt @ ''_grp'',
      ''ac_ik_'' @ endJnt @ ''_grp'', ''ac_ik_'' @ midJnt @ ''_grp'',
      ''ac_ikfk_blend_'' @ rootJnt @ ''_grp'']"
  "filter is_Parent (rig_cmds sz rootJnt midJnt endJnt ikPos blendPos con) =
     [Parent (''ac_fk_'' @ midJnt @ ''_grp'') (''ac_fk_'' @ rootJnt),
      Parent (''ac_fk_'' @ endJnt @ ''_grp'') (''ac_fk_'' @ midJnt),
      Parent (''ikHandle_'' @ endJnt) (''ac_ik_'' @ endJnt)]"
  "last (rig_cmds sz rootJnt midJnt endJnt ikPos blendPos con) =
     top_group rootJnt midJnt endJnt"
  by (simp_all add: rig_cmds_def joints_cmds_def fk_cmds_def ik_cmds_def blend_cmds_def
      top_group_def)

lemma rig_cmds_snoc:
  "rig_cmds sz rootJnt midJnt endJnt ikPos blendPos con =
     butlast (rig_cmds sz rootJnt midJnt endJnt ikPos blendPos con) @
     [top_group rootJnt midJnt endJnt]"
  by (simp add: rig_cmds_def joints_cmds_def fk_cmds_def ik_cmds_def blend_cmds_def
      top_group_def)

lemma rig_cmds_length: "length (rig_cmds sz rootJnt midJnt endJnt ikPos blendPos con) = 44"
  by (simp add: rig_cmds_def joints_cmds_def fk_cmds_def ik_cmds_def blend_cmds_def)

lemma rig_cmds_creates:
  "take 6 (concat (map creates (rig_cmds sz rootJnt midJnt endJnt ikPos blendPos con))) =
     [''ac_fk_'' @ rootJnt, ''ac_fk_'' @ rootJnt @ ''_grp'',
      ''ac_fk_'' @ midJnt, ''ac_fk_'' @ midJnt @ ''_grp'',
      ''ac_fk_'' @ endJnt, ''ac_fk_'' @ endJnt @ ''_grp'']"
  by (simp add: rig_cmds_def joints_cmds_def fk_cmds_def ik_cmds_def blend_cmds_def
      top_group_def)

lemma joints_distinct:
  assumes "run_calls maya s (rig_cmds sz rootJnt midJnt endJnt ikPos blendPos con) = (tr, s')"
    and "list_all replied tr"
  shows "rootJnt \<noteq> midJnt \<and> midJnt \<noteq> endJnt \<and> rootJnt \<noteq> endJnt"
proof -
  from run_nodes[OF assms]
  have "distinct (concat (map creates (rig_cmds sz rootJnt midJnt endJnt ikPos blendPos con)))"
    by simp
  hence "distinct (take 6
           (concat (map creates (rig_cmds sz rootJnt midJnt endJnt ikPos blendPos con))))"
    by (rule distinct_take)
  thus ?thesis unfolding rig_cmds_creates by auto
qed

lemma fk_parents:
  assumes "run_calls maya s (rig_cmds sz rootJnt midJnt endJnt ikPos blendPos con) = (tr, s')"
    and "list_all replied tr"
  shows "parent_of s' (''ac_fk_'' @ midJnt @ ''_grp'') = Some (''ac_fk_'' @ rootJnt)"
    and "parent_of s' (''ac_fk_'' @ endJnt @ ''_grp'') = Some (''ac_fk_'' @ midJnt)"
proof -
  let ?cs = "rig_cmds sz rootJnt midJnt endJnt ikPos blendPos con"
  from joints_distinct[OF assms]
  have d: "midJnt \<noteq> rootJnt" "midJnt \<noteq> endJnt" "endJnt \<noteq> rootJnt" "endJnt \<noteq> midJnt"
    by auto
  have l: "13 < length ?cs" "14 < length ?cs" by (simp_all add: rig_cmds_length)
  have 1: "?cs ! 13 = Parent (''ac_fk_'' @ midJnt @ ''_grp'') (''ac_fk_'' @ rootJnt) \<or>
           (?cs ! 13 = Group [] (''ac_fk_'' @ rootJnt) \<and> ''ac_fk_'' @ midJnt @ ''_grp'' \<in> set [])"
    by (simp add: rig_cmds_hierarchy)
  have 2: "?cs ! 14 = Parent (''ac_fk_'' @ endJnt @ ''_grp'') (''ac_fk_'' @ midJnt) \<or>
           (?cs ! 14 = Group [] (''ac_fk_'' @ midJnt) \<and> ''ac_fk_'' @ endJnt @ ''_grp'' \<in> set [])"
    by (simp add: rig_cmds_hierarchy)
  have n1: "''ac_fk_'' @ midJnt @ ''_grp'' \<notin> set (concat (map reparents (drop (Suc 13) ?cs)))"
    using d by (simp add: rig_cmds_hierarchy)
  have n2: "''ac_fk_'' @ endJnt @ ''_grp'' \<notin> set (concat (map reparents (drop (Suc 14) ?cs)))"
    using d by (simp add: rig_cmds_hierarchy)
  from run_reparented[OF assms l(1) 1 n1]
  show "parent_of s' (''ac_fk_'' @ midJnt @ ''_grp'') = Some (''ac_fk_'' @ rootJnt)" .
  from run_reparented[OF assms l(2) 2 n2]
  show "parent_of s' (''ac_fk_'' @ endJnt @ ''_grp'') = Some (''ac_fk_'' @ midJnt)" .
qed

lemma top_group_children:
  assumes "run_calls maya s (rig_cmds sz rootJnt midJnt endJnt ikPos blendPos con) = (tr, s')"
    and "list_all replied tr" and "wf_scene s"
  shows "rootJnt @ ''_rig_grp'' \<in> set (nodes s')"
    and "parent_of s' (rootJnt @ ''_rig_grp'') = None"
    and "set (children s' (rootJnt @ ''_rig_grp'')) =
           {''ac_fk_'' @ rootJnt @ ''_grp'', ''ac_ik_'' @ endJnt @ ''_grp'',
            ''ac_ik_'' @ midJnt @ ''_grp'', ''ac_ikfk_blend_'' @ rootJnt @ ''_grp''}"
    and "distinct [''ac_fk_'' @ rootJnt @ ''_grp'', ''ac_ik_'' @ endJnt @ ''_grp'',
                   ''ac_ik_'' @ midJnt @ ''_grp'', ''ac_ikfk_blend_'' @ rootJnt @ ''_grp'',
                   rootJnt @ ''_rig_grp'']"
proof -
  let ?cs = "rig_cmds sz rootJnt midJnt endJnt ikPos blendPos con"
  let ?four = "[''ac_fk_'' @ rootJnt @ ''_grp'', ''ac_ik_'' @ endJnt @ ''_grp'',
                ''ac_ik_'' @ midJnt @ ''_grp'', ''ac_ikfk_blend_'' @ rootJnt @ ''_grp'']"
  from joints_distinct[OF assms(1,2)] have d: "endJnt \<noteq> midJnt" by auto
  from assms(1) have "run_calls maya s (butlast ?cs @ [top_group rootJnt midJnt endJnt]) = (tr, s')"
    using rig_cmds_snoc[of sz rootJnt midJnt endJnt ikPos blendPos con] by simp
  from this assms(2) obtain v s0 tr0 where
    0: "run_calls maya s (butlast ?cs) = (tr0, s0)" and r: "list_all replied tr0" and
    g: "maya s0 (top_group rootJnt midJnt endJnt) = (Inr v, s')"
    by (rule run_calls_snocE)
  from run_wf[OF 0 r assms(3)] have wf: "wf_scene s0" .
  note m = maya_group[OF g[unfolded top_group_def] wf]
  from m show "rootJnt @ ''_rig_grp'' \<in> set (nodes s')" by (rule conjunct1[OF conjunct2[OF conjunct2]])
  from m show "parent_of s' (rootJnt @ ''_rig_grp'') = None" by (rule conjunct1[OF conjunct2])
  from m have "set (children s' (rootJnt @ ''_rig_grp'')) = set ?four" by (rule conjunct1)
  thus "set (children s' (rootJnt @ ''_rig_grp'')) =
           {''ac_fk_'' @ rootJnt @ ''_grp'', ''ac_ik_'' @ endJnt @ ''_grp'',
            ''ac_ik_'' @ midJnt @ ''_grp'', ''ac_ikfk_blend_'' @ rootJnt @ ''_grp''}"
    by (simp only: list.set)
  from m have "rootJnt @ ''_rig_grp'' \<notin> set ?four" by simp
  moreover have "distinct ?four" using d by simp
  ultimately have "distinct (?four @ [rootJnt @ ''_rig_grp''])"
    by (simp only: distinct_append distinct.simps list.set empty_iff Int_insert_right
        Int_empty_right if_False simp_thms)
  thus "distinct [''ac_fk_'' @ rootJnt @ ''_grp'', ''ac_ik_'' @ endJnt @ ''_grp'',
                   ''ac_ik_'' @ midJnt @ ''_grp'', ''ac_ikfk_blend_'' @ rootJnt @ ''_grp'',
                   rootJnt @ ''_rig_grp'']"
    by (simp only: append.simps)
qed


section \<open>The claims\<close>

subsection \<open>C1: the position of the pole-vector control\<close>

text \<open>
  C1, as amended. In every run of \<^verbatim>\<open>CreateIkControl\<close> that returns, with \<open>r\<close> and \<open>e\<close> the
  world positions read for the root and the end joint (calls 7 and 8 of the stage) and \<open>pv\<close>
  the pole vector read back from the new handle (call 9), the one move the stage makes
  puts the group of the pole-vector locator at
  \<open>r + 0.5 * (e - r) + normalize pv * 0.5 * |e - r|\<close>. Whenever \<open>pv\<close> is not the zero
  vector, the distance of that position from the midpoint \<open>r + 0.5 * (e - r)\<close> is
  \<open>0.5 * |e - r|\<close>, whatever the direction of the limb. (For the zero vector, which
  \<^verbatim>\<open>normalize\<close> leaves as it is, the control lands on the midpoint.) Numbers are reals.
\<close>

theorem pole_control_position:
  assumes "CreateIkControl host sz rootJnt midJnt endJnt w = (Inr res, w')"
  shows "\<exists>r e pv.
           fst (issued w w' ! 7) = Xform_q_t_ws rootJnt \<and>
           mvector_of_vals (answer (issued w w') 7) = Inr r \<and>
           fst (issued w w' ! 8) = Xform_q_t_ws endJnt \<and>
           mvector_of_vals (answer (issued w w') 8) = Inr e \<and>
           fst (issued w w' ! 9) = GetAttr (''ikHandle_'' @ endJnt @ ''.poleVector'') \<and>
           mvector_of_first_tuple (answer (issued w w') 9) = Inr pv \<and>
           fst (issued w w' ! 12) =
             Move (vx (midIkCtrlPos r e pv)) (vy (midIkCtrlPos r e pv)) (vz (midIkCtrlPos r e pv))
               (''ac_ik_'' @ midJnt @ ''_grp'') \<and>
           filter is_Move (map fst (issued w w')) = [fst (issued w w' ! 12)] \<and>
           midIkCtrlPos r e pv =
             vadd (vadd r (vmul (vsub e r) 0.5))
                  (vmul (vmul (vnormalize pv) 0.5) (vlength (vsub e r))) \<and>
           (pv \<noteq> MVector 0 0 0 \<longrightarrow>
              vlength (vsub (midIkCtrlPos r e pv) (vadd r (vmul (vsub e r) 0.5))) =
              0.5 * vlength (vsub e r))"
proof -
  from CreateIkControl_Inr[OF assms] obtain r e pv where
    a: "mvector_of_vals (answer (issued w w') 7) = Inr r"
       "mvector_of_vals (answer (issued w w') 8) = Inr e"
       "mvector_of_first_tuple (answer (issued w w') 9) = Inr pv"
    and ran: "ran host w (ik_cmds sz rootJnt midJnt endJnt (midIkCtrlPos r e pv)) w'"
    by blast
  let ?cs = "ik_cmds sz rootJnt midJnt endJnt (midIkCtrlPos r e pv)"
  from ran_cmds[OF ran] have cs: "map fst (issued w w') = ?cs"
    by simp
  have c7: "fst (issued w w' ! 7) = Xform_q_t_ws rootJnt"
    using nth_cmd[OF cs, of 7] by (simp add: ik_cmds_def)
  have c8: "fst (issued w w' ! 8) = Xform_q_t_ws endJnt"
    using nth_cmd[OF cs, of 8] by (simp add: ik_cmds_def)
  have c9: "fst (issued w w' ! 9) = GetAttr (''ikHandle_'' @ endJnt @ ''.poleVector'')"
    using nth_cmd[OF cs, of 9] by (simp add: ik_cmds_def)
  have c12: "fst (issued w w' ! 12) =
             Move (vx (midIkCtrlPos r e pv)) (vy (midIkCtrlPos r e pv)) (vz (midIkCtrlPos r e pv))
               (''ac_ik_'' @ midJnt @ ''_grp'')"
    using nth_cmd[OF cs, of 12] by (simp add: ik_cmds_def)
  have mv: "filter is_Move (map fst (issued w w')) = [fst (issued w w' ! 12)]"
    unfolding c12 cs by (simp add: ik_cmds_def)
  from a c7 c8 c9 c12 mv midIkCtrlPos_spec[of r e pv] midIkCtrlPos_distance[of pv r e]
  show ?thesis by blast
qed

theorem pole_control_position_witness:
  "CreateIkControl maya 15 ''hip'' ''knee'' ''ankle'' (pole_world (MVector 0 0 3)) =
     (Inr (''ac_ik_ankle'', ''ac_ik_ankle_grp'', ''ac_ik_knee'', ''ac_ik_knee_grp'',
           ''ikHandle_ankle''), ik_built (MVector 0 0 3)) \<and>
   mvector_of_vals (answer (issued (pole_world (MVector 0 0 3)) (ik_built (MVector 0 0 3))) 7) =
     Inr (MVector 3 0 0) \<and>
   mvector_of_vals (answer (issued (pole_world (MVector 0 0 3)) (ik_built (MVector 0 0 3))) 8) =
     Inr (MVector 3 8 0) \<and>
   mvector_of_first_tuple
       (answer (issued (pole_world (MVector 0 0 3)) (ik_built (MVector 0 0 3))) 9) =
     Inr (MVector 0 0 3) \<and>
   fst (issued (pole_world (MVector 0 0 3)) (ik_built (MVector 0 0 3)) ! 12) =
     Move 3 4 4 ''ac_ik_knee_grp'' \<and>
   MVector 0 0 3 \<noteq> MVector 0 0 0 \<and>
   vlength (vsub (MVector 3 4 4) (MVector 3 4 0)) =
     0.5 * vlength (vsub (MVector 3 8 0) (MVector 3 0 0))"
proof -
  let ?p = "MVector 0 0 3"
  note a = limb_ik(2-4)[of ?p]
  have pos: "midIkCtrlPos (MVector 3 0 0) (MVector 3 8 0) ?p = MVector 3 4 4"
    by (simp add: midIkCtrlPos_def Let_def vnormalize_def vlength_def vsub_def vdiv_def
        vmul_def vadd_def sqrt_9 sqrt_16)
  have mid: "vadd (MVector 3 0 0) (vmul (vsub (MVector 3 8 0) (MVector 3 0 0)) 0.5) = MVector 3 4 0"
    by (simp add: vadd_def vmul_def vsub_def)
  from pole_control_position[OF limb_ik_run[of ?p]] a pos mid limb_ik_run[of ?p]
  show ?thesis
    by (auto simp add: mvector_of_vals_def mvector_of_list_def mvector_of_first_tuple_def)
qed

text \<open>
  The claim as stated fails when the handle reports the zero pole vector: the limb from
  \<open>(3, 0, 0)\<close> to \<open>(3, 8, 0)\<close> has half length 4, and the group is moved to the
  midpoint \<open>(3, 4, 0)\<close> itself, at distance 0.
\<close>

theorem pole_control_distance_counterexample:
  "CreateIkControl maya 15 ''hip'' ''knee'' ''ankle'' (pole_world (MVector 0 0 0)) =
     (Inr (''ac_ik_ankle'', ''ac_ik_ankle_grp'', ''ac_ik_knee'', ''ac_ik_knee_grp'',
           ''ikHandle_ankle''), ik_built (MVector 0 0 0)) \<and>
   mvector_of_first_tuple
       (answer (issued (pole_world (MVector 0 0 0)) (ik_built (MVector 0 0 0))) 9) =
     Inr (MVector 0 0 0) \<and>
   fst (issued (pole_world (MVector 0 0 0)) (ik_built (MVector 0 0 0)) ! 12) =
     Move 3 4 0 ''ac_ik_knee_grp'' \<and>
   vlength (vsub (MVector 3 4 0)
              (vadd (MVector 3 0 0) (vmul (vsub (MVector 3 8 0) (MVector 3 0 0)) 0.5))) \<noteq>
     0.5 * vlength (vsub (MVector 3 8 0) (MVector 3 0 0))"
proof -
  let ?p = "MVector 0 0 0"
  note a = limb_ik(2-4)[of ?p]
  have pos: "midIkCtrlPos (MVector 3 0 0) (MVector 3 8 0) ?p = MVector 3 4 0"
    by (simp add: midIkCtrlPos_def Let_def vnormalize_def vlength_def vsub_def vdiv_def
        vmul_def vadd_def)
  have far: "vlength (vsub (MVector 3 4 0)
              (vadd (MVector 3 0 0) (vmul (vsub (MVector 3 8 0) (MVector 3 0 0)) 0.5))) \<noteq>
     0.5 * vlength (vsub (MVector 3 8 0) (MVector 3 0 0))"
    by (simp add: vlength_def vsub_def vadd_def vmul_def)
  from CreateIkControl_Inr[OF limb_ik_run[of ?p]] obtain r e pv where
    "mvector_of_vals (answer (issued (pole_world ?p) (ik_built ?p)) 7) = Inr r"
    "mvector_of_vals (answer (issued (pole_world ?p) (ik_built ?p)) 8) = Inr e"
    "mvector_of_first_tuple (answer (issued (pole_world ?p) (ik_built ?p)) 9) = Inr pv"
    and ran: "ran maya (pole_world ?p)
                (ik_cmds 15 ''hip'' ''knee'' ''ankle'' (midIkCtrlPos r e pv)) (ik_built ?p)"
    by blast
  with a have "r = MVector 3 0 0" "e = MVector 3 8 0" "pv = ?p"
    by (simp_all add: mvector_of_vals_def mvector_of_list_def mvector_of_first_tuple_def)
  with ran pos have "map fst (issued (pole_world ?p) (ik_built ?p)) =
      ik_cmds 15 ''hip'' ''knee'' ''ankle'' (MVector 3 4 0)"
    by (simp add: ran_cmds)
  from nth_cmd[OF this, of 12]
  have "fst (issued (pole_world ?p) (ik_built ?p) ! 12) = Move 3 4 0 ''ac_ik_knee_grp''"
    by (simp add: ik_cmds_def)
  with a far limb_ik_run[of ?p] show ?thesis
    by (simp add: mvector_of_first_tuple_def mvector_of_list_def)
qed

subsection \<open>C2: the weights of the two drivers of the end joint\<close>

text \<open>
  C2. In every build that returns, the end joint gets two orientation constraints, first
  with its FK control and then with its IK control as driver; the constraint node \<open>con\<close>
  is read back from the end joint, and the last two expressions drive the weight of
  the FK driver with \<open>1 - b\<close> and the weight of the IK driver with \<open>b\<close>, where \<open>b\<close> is the
  value of the blend attribute: for every \<open>b\<close> the two weights sum to 1.
\<close>

theorem driver_weights_sum_to_one:
  assumes "RigTheLimb host sz w = (Inr u, w')"
  shows "\<exists>rootJnt endJnt con.
           index_strs (answer (issued w w') 0) 0 = Inr rootJnt \<and>
           index_strs (answer (issued w w') 0) 2 = Inr endJnt \<and>
           fst (issued w w' ! 12) = OrientConstraint (''ac_fk_'' @ endJnt) endJnt \<and>
           fst (issued w w' ! 20) = OrientConstraint (''ac_ik_'' @ endJnt) endJnt \<and>
           fst (issued w w' ! 40) = ListConnections endJnt True ''orientConstraint'' \<and>
           index_strs (answer (issued w w') 40) 0 = Inr con \<and>
           (CHR ''='' \<notin> set con \<and> CHR ''='' \<notin> set endJnt \<longrightarrow>
              driven env (expression_text (fst (issued w w' ! 41))) =
                (con @ ''.ac_fk_'' @ endJnt @ ''W0'', 1 - env (blend_attr rootJnt)) \<and>
              driven env (expression_text (fst (issued w w' ! 42))) =
                (con @ ''.ac_ik_'' @ endJnt @ ''W1'', env (blend_attr rootJnt)) \<and>
              snd (driven env (expression_text (fst (issued w w' ! 41)))) +
              snd (driven env (expression_text (fst (issued w w' ! 42)))) = 1)"
proof -
  from RigTheLimb_Inr[OF assms] obtain rootJnt midJnt endJnt r e pv p con where
    root: "index_strs (answer (issued w w') 0) 0 = Inr rootJnt" and
    endj: "index_strs (answer (issued w w') 0) 2 = Inr endJnt" and
    con: "index_strs (answer (issued w w') 40) 0 = Inr con" and
    ran: "ran host w (rig_cmds sz rootJnt midJnt endJnt (midIkCtrlPos r e pv)
                         (ikfkBlendCtrlPos p) con) w'"
    by blast
  let ?cs = "rig_cmds sz rootJnt midJnt endJnt (midIkCtrlPos r e pv) (ikfkBlendCtrlPos p) con"
  from ran_cmds[OF ran] have cs: "map fst (issued w w') = ?cs" by simp
  have 12: "fst (issued w w' ! 12) = OrientConstraint (''ac_fk_'' @ endJnt) endJnt"
    using nth_cmd[OF cs, of 12] by (simp add: rig_cmds_nth)
  have 20: "fst (issued w w' ! 20) = OrientConstraint (''ac_ik_'' @ endJnt) endJnt"
    using nth_cmd[OF cs, of 20] by (simp add: rig_cmds_nth)
  have 40: "fst (issued w w' ! 40) = ListConnections endJnt True ''orientConstraint''"
    using nth_cmd[OF cs, of 40] by (simp add: rig_cmds_nth)
  have 41: "expression_text (fst (issued w w' ! 41)) =
              con @ ''.ac_fk_'' @ endJnt @ ''W0=1-'' @ blend_attr rootJnt @ '';''"
    using nth_cmd[OF cs, of 41] by (simp add: rig_cmds_nth)
  have 42: "expression_text (fst (issued w w' ! 42)) =
              con @ ''.ac_ik_'' @ endJnt @ ''W1='' @ blend_attr rootJnt @ '';''"
    using nth_cmd[OF cs, of 42] by (simp add: rig_cmds_nth)
  have w: "CHR ''='' \<notin> set con \<and> CHR ''='' \<notin> set endJnt \<longrightarrow>
              driven env (expression_text (fst (issued w w' ! 41))) =
                (con @ ''.ac_fk_'' @ endJnt @ ''W0'', 1 - env (blend_attr rootJnt)) \<and>
              driven env (expression_text (fst (issued w w' ! 42))) =
                (con @ ''.ac_ik_'' @ endJnt @ ''W1'', env (blend_attr rootJnt)) \<and>
              snd (driven env (expression_text (fst (issued w w' ! 41)))) +
              snd (driven env (expression_text (fst (issued w w' ! 42)))) = 1"
  proof
    assume a: "CHR ''='' \<notin> set con \<and> CHR ''='' \<notin> set endJnt"
    hence e: "CHR ''='' \<notin> set endJnt" "CHR ''='' \<notin> set con" by simp_all
    have d:
      "driven env (con @ ''.ac_fk_'' @ endJnt @ ''W0=1-'' @ blend_attr rootJnt @ '';'') =
         (con @ ''.ac_fk_'' @ endJnt @ ''W0'', 1 - env (blend_attr rootJnt))"
      "driven env (con @ ''.ac_ik_'' @ endJnt @ ''W1='' @ blend_attr rootJnt @ '';'') =
         (con @ ''.ac_ik_'' @ endJnt @ ''W1'', env (blend_attr rootJnt))"
      using driven_one_minus[of "con @ ''.ac_fk_'' @ endJnt @ ''W0''" env rootJnt]
        driven_same_semicolon[of "con @ ''.ac_ik_'' @ endJnt @ ''W1''" env rootJnt] e
      by simp_all
    show "driven env (expression_text (fst (issued w w' ! 41))) =
                (con @ ''.ac_fk_'' @ endJnt @ ''W0'', 1 - env (blend_attr rootJnt)) \<and>
              driven env (expression_text (fst (issued w w' ! 42))) =
                (con @ ''.ac_ik_'' @ endJnt @ ''W1'', env (blend_attr rootJnt)) \<and>
              snd (driven env (expression_text (fst (issued w w' ! 41)))) +
              snd (driven env (expression_text (fst (issued w w' ! 42)))) = 1"
      unfolding 41 42 d by simp
  qed
  from root endj con 12 20 40 w show ?thesis by blast
qed


theorem driver_weights_sum_to_one_witness:
  "RigTheLimb maya 15 limb_world = (Inr (), built) \<and>
   fst (issued limb_world built ! 12) = OrientConstraint ''ac_fk_ankle'' ''ankle'' \<and>
   fst (issued limb_world built ! 20) = OrientConstraint ''ac_ik_ankle'' ''ankle'' \<and>
   fst (issued limb_world built ! 40) = ListConnections ''ankle'' True ''orientConstraint'' \<and>
   index_strs (answer (issued limb_world built) 40) 0 = Inr ''ankle_orientConstraint1'' \<and>
   CHR ''='' \<notin> set ''ankle_orientConstraint1'' \<and> CHR ''='' \<notin> set ''ankle'' \<and>
   driven (\<lambda>a. if a = ''ac_ikfk_blend_hip.ikfk_blend'' then 1 / 4 else 0)
     (expression_text (fst (issued limb_world built ! 41))) =
     (''ankle_orientConstraint1.ac_fk_ankleW0'', 3 / 4) \<and>
   driven (\<lambda>a. if a = ''ac_ikfk_blend_hip.ikfk_blend'' then 1 / 4 else 0)
     (expression_text (fst (issued limb_world built ! 42))) =
     (''ankle_orientConstraint1.ac_ik_ankleW1'', 1 / 4)"
proof -
  let ?env = "\<lambda>a. if a = ''ac_ikfk_blend_hip.ikfk_blend'' then 1 / 4 else (0::real)"
  from driver_weights_sum_to_one[OF limb_run, of ?env] obtain rootJnt endJnt con where
    f: "index_strs (answer (issued limb_world built) 0) 0 = Inr rootJnt"
       "index_strs (answer (issued limb_world built) 0) 2 = Inr endJnt"
       "fst (issued limb_world built ! 12) = OrientConstraint (''ac_fk_'' @ endJnt) endJnt"
       "fst (issued limb_world built ! 20) = OrientConstraint (''ac_ik_'' @ endJnt) endJnt"
       "fst (issued limb_world built ! 40) = ListConnections endJnt True ''orientConstraint''"
       "index_strs (answer (issued limb_world built) 40) 0 = Inr con" and
    g: "CHR ''='' \<notin> set con \<and> CHR ''='' \<notin> set endJnt \<longrightarrow>
          driven ?env (expression_text (fst (issued limb_world built ! 41))) =
            (con @ ''.ac_fk_'' @ endJnt @ ''W0'', 1 - ?env (blend_attr rootJnt)) \<and>
          driven ?env (expression_text (fst (issued limb_world built ! 42))) =
            (con @ ''.ac_ik_'' @ endJnt @ ''W1'', ?env (blend_attr rootJnt))"
    by blast
  from f(1) limb_names(1) have r: "rootJnt = ''hip''" by simp
  from f(2) limb_names(3) have e: "endJnt = ''ankle''" by simp
  from f(6) limb_names(5) have c: "con = ''ankle_orientConstraint1''" by simp
  from g f(3,4,5) limb_run limb_names(5) show ?thesis
    unfolding r e c by (simp add: blend_attr_def)
qed

subsection \<open>C3: too few joints\<close>

text \<open>
  C3, as amended. Whenever the selection query returns fewer than three names, the build
  fails with the \<^verbatim>\<open>IndexError\<close> of the positional read (the tool has no error of its own
  for the selection) before any other call: the selection query is the only call made,
  and the scene is the one the query left. In particular, with two joints it fails and
  creates no scene node.
\<close>

theorem too_few_joints_fail_before_any_effect:
  assumes "host (scene w) Ls_sl = (Inr (VStrs sel), h)" and "length sel < 3"
  shows "RigTheLimb host sz w =
           (Inl IndexError, \<lparr>scene = h, trace = trace w @ [(Ls_sl, Inr (VStrs sel))]\<rparr>)"
  using assms
  by (auto simp: RigTheLimb_def then_do_def call_def lift_def index_strs_def)

theorem too_few_joints_fail_before_any_effect_witness:
  "maya (scene (start (limb_scene [''hip'', ''knee'']))) Ls_sl =
     (Inr (VStrs [''hip'', ''knee'']), limb_scene [''hip'', ''knee'']) \<and>
   length [''hip'', ''knee''] < 3 \<and>
   RigTheLimb maya 15 (start (limb_scene [''hip'', ''knee''])) =
     (Inl IndexError,
      \<lparr>scene = limb_scene [''hip'', ''knee''],
       trace = [(Ls_sl, Inr (VStrs [''hip'', ''knee'']))]\<rparr>)"
proof -
  have 1: "maya (scene (start (limb_scene [''hip'', ''knee'']))) Ls_sl =
     (Inr (VStrs [''hip'', ''knee'']), limb_scene [''hip'', ''knee''])"
    by (simp add: start_def limb_scene_def)
  have 2: "length [''hip'', ''knee''] < 3" by simp
  from too_few_joints_fail_before_any_effect[of maya "start (limb_scene [''hip'', ''knee''])" "[''hip'', ''knee'']"
        "limb_scene [''hip'', ''knee'']" 15, OF 1 2] 1 2
  show ?thesis by (simp add: start_def)
qed

text \<open>
  The claim as stated fails for more than three joints: with four joints selected the
  build succeeds.
\<close>

theorem four_joints_build_counterexample:
  "length [''hip'', ''knee'', ''ankle'', ''toe''] \<noteq> 3 \<and>
   fst (RigTheLimb maya 15 (start (limb_scene [''hip'', ''knee'', ''ankle'', ''toe'']))) = Inr ()"
  using limb_build[of "[''toe'']"] by simp

subsection \<open>C4: the expressions of the blend stage\<close>

text \<open>
  C4, as amended. In every build that returns, the calls after the one that adds the blend
  attribute \<^verbatim>\<open>ikfk_blend\<close> to the blend control hold exactly six expressions, and no
  expression is created before. With \<open>b\<close> the value of the blend attribute, they drive, in
  this order: the visibility of the group of the root FK control with \<open>1 - b\<close>; the
  visibility of the group of the IK end control, the visibility of the group of the
  pole-vector control and the blend of the IK handle with \<open>b\<close>; the weight of the FK driver
  of the orientation constraint of the end joint with \<open>1 - b\<close> and the weight of its IK
  driver with \<open>b\<close>.
\<close>

theorem six_blend_expressions:
  assumes "RigTheLimb host sz w = (Inr u, w')"
  shows "\<exists>rootJnt midJnt endJnt con.
           index_strs (answer (issued w w') 0) 0 = Inr rootJnt \<and>
           index_strs (answer (issued w w') 0) 1 = Inr midJnt \<and>
           index_strs (answer (issued w w') 0) 2 = Inr endJnt \<and>
           index_strs (answer (issued w w') 40) 0 = Inr con \<and>
           fst (issued w w' ! 35) = AddAttr (''ac_ikfk_blend_'' @ rootJnt) ''ikfk_blend'' True 0 1 \<and>
           filter is_Expression (take 36 (map fst (issued w w'))) = [] \<and>
           length (filter is_Expression (map fst (issued w w'))) = 6 \<and>
           (CHR ''='' \<notin> set rootJnt \<and> CHR ''='' \<notin> set midJnt \<and> CHR ''='' \<notin> set endJnt \<and>
            CHR ''='' \<notin> set con \<longrightarrow>
              map (\<lambda>c. driven env (expression_text c))
                (filter is_Expression (map fst (issued w w'))) =
                [(''ac_fk_'' @ rootJnt @ ''_grp.v'', 1 - env (blend_attr rootJnt)),
                 (''ac_ik_'' @ endJnt @ ''_grp.v'', env (blend_attr rootJnt)),
                 (''ac_ik_'' @ midJnt @ ''_grp.v'', env (blend_attr rootJnt)),
                 (''ikHandle_'' @ endJnt @ ''.ikBlend'', env (blend_attr rootJnt)),
                 (con @ ''.ac_fk_'' @ endJnt @ ''W0'', 1 - env (blend_attr rootJnt)),
                 (con @ ''.ac_ik_'' @ endJnt @ ''W1'', env (blend_attr rootJnt))])"
proof -
  from RigTheLimb_Inr[OF assms] obtain rootJnt midJnt endJnt r e pv p con where
    n: "index_strs (answer (issued w w') 0) 0 = Inr rootJnt"
       "index_strs (answer (issued w w') 0) 1 = Inr midJnt"
       "index_strs (answer (issued w w') 0) 2 = Inr endJnt"
       "index_strs (answer (issued w w') 40) 0 = Inr con"
    by blast
  note a = expressions_issued(1)[OF assms n]
  note t = expressions_issued(2)[OF assms n]
  note x = expressions_issued(3)[OF assms n]
  have l: "length (filter is_Expression (map fst (issued w w'))) = 6"
    using arg_cong[OF x, of length] by simp
  have m: "map (\<lambda>c. driven env (expression_text c))
             (filter is_Expression (map fst (issued w w'))) =
           map (driven env)
             (map expression_text (filter is_Expression (map fst (issued w w'))))"
    by simp
  have d: "CHR ''='' \<notin> set rootJnt \<and> CHR ''='' \<notin> set midJnt \<and> CHR ''='' \<notin> set endJnt \<and>
            CHR ''='' \<notin> set con \<longrightarrow>
              map (\<lambda>c. driven env (expression_text c))
                (filter is_Expression (map fst (issued w w'))) =
                [(''ac_fk_'' @ rootJnt @ ''_grp.v'', 1 - env (blend_attr rootJnt)),
                 (''ac_ik_'' @ endJnt @ ''_grp.v'', env (blend_attr rootJnt)),
                 (''ac_ik_'' @ midJnt @ ''_grp.v'', env (blend_attr rootJnt)),
                 (''ikHandle_'' @ endJnt @ ''.ikBlend'', env (blend_attr rootJnt)),
                 (con @ ''.ac_fk_'' @ endJnt @ ''W0'', 1 - env (blend_attr rootJnt)),
                 (con @ ''.ac_ik_'' @ endJnt @ ''W1'', env (blend_attr rootJnt))]"
  proof
    assume "CHR ''='' \<notin> set rootJnt \<and> CHR ''='' \<notin> set midJnt \<and> CHR ''='' \<notin> set endJnt \<and>
            CHR ''='' \<notin> set con"
    hence a: "CHR ''='' \<notin> set rootJnt" "CHR ''='' \<notin> set midJnt" "CHR ''='' \<notin> set endJnt"
      "CHR ''='' \<notin> set con" by simp_all
    show "map (\<lambda>c. driven env (expression_text c))
                (filter is_Expression (map fst (issued w w'))) =
                [(''ac_fk_'' @ rootJnt @ ''_grp.v'', 1 - env (blend_attr rootJnt)),
                 (''ac_ik_'' @ endJnt @ ''_grp.v'', env (blend_attr rootJnt)),
                 (''ac_ik_'' @ midJnt @ ''_grp.v'', env (blend_attr rootJnt)),
                 (''ikHandle_'' @ endJnt @ ''.ikBlend'', env (blend_attr rootJnt)),
                 (con @ ''.ac_fk_'' @ endJnt @ ''W0'', 1 - env (blend_attr rootJnt)),
                 (con @ ''.ac_ik_'' @ endJnt @ ''W1'', env (blend_attr rootJnt))]"
      unfolding m x list.map driven_expressions[OF a] by (rule refl)
  qed
  from n a t l d show ?thesis
    by - (rule exI[of _ rootJnt], rule exI[of _ midJnt], rule exI[of _ endJnt],
          rule exI[of _ con], intro conjI, assumption+)
qed


theorem six_blend_expressions_witness:
  "RigTheLimb maya 15 limb_world = (Inr (), built) \<and>
   CHR ''='' \<notin> set ''hip'' \<and> CHR ''='' \<notin> set ''knee'' \<and> CHR ''='' \<notin> set ''ankle'' \<and>
   CHR ''='' \<notin> set ''ankle_orientConstraint1'' \<and>
   fst (issued limb_world built ! 35) = AddAttr ''ac_ikfk_blend_hip'' ''ikfk_blend'' True 0 1 \<and>
   length (filter is_Expression (map fst (issued limb_world built))) = 6 \<and>
   map (\<lambda>c. driven (\<lambda>a. 0) (expression_text c))
     (filter is_Expression (map fst (issued limb_world built))) =
     [(''ac_fk_hip_grp.v'', 1), (''ac_ik_ankle_grp.v'', 0), (''ac_ik_knee_grp.v'', 0),
      (''ikHandle_ankle.ikBlend'', 0), (''ankle_orientConstraint1.ac_fk_ankleW0'', 1),
      (''ankle_orientConstraint1.ac_ik_ankleW1'', 0)] \<and>
   map (\<lambda>c. driven (\<lambda>a. if a = ''ac_ikfk_blend_hip.ikfk_blend'' then 1 else 0)
              (expression_text c))
     (filter is_Expression (map fst (issued limb_world built))) =
     [(''ac_fk_hip_grp.v'', 0), (''ac_ik_ankle_grp.v'', 1), (''ac_ik_knee_grp.v'', 1),
      (''ikHandle_ankle.ikBlend'', 1), (''ankle_orientConstraint1.ac_fk_ankleW0'', 0),
      (''ankle_orientConstraint1.ac_ik_ankleW1'', 1)]"
proof -
  let ?xs = "filter is_Expression (map fst (issued limb_world built))"
  have g: "fst (issued limb_world built ! 35) =
             AddAttr ''ac_ikfk_blend_hip'' ''ikfk_blend'' True 0 1 \<and>
           length ?xs = 6 \<and>
           map (\<lambda>c. driven env (expression_text c)) ?xs =
             [(''ac_fk_hip_grp.v'', 1 - env ''ac_ikfk_blend_hip.ikfk_blend''),
              (''ac_ik_ankle_grp.v'', env ''ac_ikfk_blend_hip.ikfk_blend''),
              (''ac_ik_knee_grp.v'', env ''ac_ikfk_blend_hip.ikfk_blend''),
              (''ikHandle_ankle.ikBlend'', env ''ac_ikfk_blend_hip.ikfk_blend''),
              (''ankle_orientConstraint1.ac_fk_ankleW0'', 1 - env ''ac_ikfk_blend_hip.ikfk_blend''),
              (''ankle_orientConstraint1.ac_ik_ankleW1'', env ''ac_ikfk_blend_hip.ikfk_blend'')]"
    for env
    using six_blend_expressions[OF limb_run, of env] unfolding limb_names
    by (simp add: blend_attr_def)
  from g[of "\<lambda>a. 0"] g[of "\<lambda>a. if a = ''ac_ikfk_blend_hip.ikfk_blend'' then 1 else 0"] limb_run
  show ?thesis by simp
qed

text \<open>
  The claim as stated counts five expressions: the build on the reference scene creates
  six.
\<close>

theorem five_expressions_counterexample:
  "fst (RigTheLimb maya 15 limb_world) = Inr () \<and>
   length (filter is_Expression (map fst (issued limb_world built))) = 6 \<and>
   length (filter is_Expression (map fst (issued limb_world built))) \<noteq> 5 \<and>
   length (expressions (scene built)) = 6"
proof -
  have "length (map expression_text
          (filter is_Expression (map fst (issued limb_world built)))) = 6"
    unfolding expressions_issued(3)[OF limb_run limb_names(1,2,3,5)] by simp
  with limb_run limb_built(5) show ?thesis by simp
qed

subsection \<open>C5: the FK chain\<close>

text \<open>
  C5. After every build on the reference scene graph that returns, the parent of the group
  of the FK control of the middle joint is the FK control of the root joint, and the
  parent of the group of the FK control of the end joint is the FK control of the middle
  joint: calls 13 and 14 of the build set these parents and no later call gives these
  groups another one. The three joints of such a build are different from one another.
\<close>

theorem fk_groups_follow_the_joints:
  assumes "RigTheLimb maya sz w = (Inr u, w')"
  shows "\<exists>rootJnt midJnt endJnt.
           index_strs (answer (issued w w') 0) 0 = Inr rootJnt \<and>
           index_strs (answer (issued w w') 0) 1 = Inr midJnt \<and>
           index_strs (answer (issued w w') 0) 2 = Inr endJnt \<and>
           fst (issued w w' ! 13) =
             Parent (''ac_fk_'' @ midJnt @ ''_grp'') (''ac_fk_'' @ rootJnt) \<and>
           fst (issued w w' ! 14) =
             Parent (''ac_fk_'' @ endJnt @ ''_grp'') (''ac_fk_'' @ midJnt) \<and>
           parent_of (scene w') (''ac_fk_'' @ midJnt @ ''_grp'') = Some (''ac_fk_'' @ rootJnt) \<and>
           parent_of (scene w') (''ac_fk_'' @ endJnt @ ''_grp'') = Some (''ac_fk_'' @ midJnt) \<and>
           distinct [rootJnt, midJnt, endJnt]"
proof -
  from RigTheLimb_Inr[OF assms] obtain rootJnt midJnt endJnt r e pv p con where
    n: "index_strs (answer (issued w w') 0) 0 = Inr rootJnt"
       "index_strs (answer (issued w w') 0) 1 = Inr midJnt"
       "index_strs (answer (issued w w') 0) 2 = Inr endJnt" and
    ran: "ran maya w (rig_cmds sz rootJnt midJnt endJnt (midIkCtrlPos r e pv)
                         (ikfkBlendCtrlPos p) con) w'"
    by blast
  let ?cs = "rig_cmds sz rootJnt midJnt endJnt (midIkCtrlPos r e pv) (ikfkBlendCtrlPos p) con"
  from ran have cs: "map fst (issued w w') = ?cs" and rep: "list_all replied (issued w w')"
    and run: "run_calls maya (scene w) ?cs = (issued w w', scene w')"
    by (simp_all add: ran_def)
  have 13: "fst (issued w w' ! 13) =
              Parent (''ac_fk_'' @ midJnt @ ''_grp'') (''ac_fk_'' @ rootJnt)"
    using nth_cmd[OF cs, of 13] by (simp add: rig_cmds_length rig_cmds_hierarchy)
  have 14: "fst (issued w w' ! 14) =
              Parent (''ac_fk_'' @ endJnt @ ''_grp'') (''ac_fk_'' @ midJnt)"
    using nth_cmd[OF cs, of 14] by (simp add: rig_cmds_length rig_cmds_hierarchy)
  from joints_distinct[OF run rep] have d: "distinct [rootJnt, midJnt, endJnt]" by auto
  from n 13 14 fk_parents[OF run rep] d show ?thesis
    by - (rule exI[of _ rootJnt], rule exI[of _ midJnt], rule exI[of _ endJnt],
          intro conjI, assumption+)
qed

theorem fk_groups_follow_the_joints_witness:
  "RigTheLimb maya 15 limb_world = (Inr (), built) \<and>
   fst (issued limb_world built ! 13) = Parent ''ac_fk_knee_grp'' ''ac_fk_hip'' \<and>
   fst (issued limb_world built ! 14) = Parent ''ac_fk_ankle_grp'' ''ac_fk_knee'' \<and>
   parent_of (scene built) ''ac_fk_knee_grp'' = Some ''ac_fk_hip'' \<and>
   parent_of (scene built) ''ac_fk_ankle_grp'' = Some ''ac_fk_knee''"
  using fk_groups_follow_the_joints[OF limb_run] limb_run unfolding limb_names by simp

subsection \<open>C6: the top group\<close>

text \<open>
  C6. After every build that returns, on a reference scene graph in which the parent of
  every node is a node, the last call of the build has created the group
  \<open>rootJnt_rig_grp\<close>: it has no parent, and its children are exactly the group of the FK
  control of the root joint, the group of the IK end control, the group of the
  pole-vector control and the group of the blend control, four different nodes that all
  have the new group as parent. The only \<^verbatim>\<open>parent\<close> calls of the build are the two of the
  FK chain and the one of the IK stage.
\<close>

theorem four_branches_under_one_group:
  assumes "RigTheLimb maya sz w = (Inr u, w')" and "wf_scene (scene w)"
  shows "\<exists>rootJnt midJnt endJnt.
           index_strs (answer (issued w w') 0) 0 = Inr rootJnt \<and>
           index_strs (answer (issued w w') 0) 1 = Inr midJnt \<and>
           index_strs (answer (issued w w') 0) 2 = Inr endJnt \<and>
           last (map fst (issued w w')) = top_group rootJnt midJnt endJnt \<and>
           rootJnt @ ''_rig_grp'' \<in> set (nodes (scene w')) \<and>
           parent_of (scene w') (rootJnt @ ''_rig_grp'') = None \<and>
           set (children (scene w') (rootJnt @ ''_rig_grp'')) =
             {''ac_fk_'' @ rootJnt @ ''_grp'', ''ac_ik_'' @ endJnt @ ''_grp'',
              ''ac_ik_'' @ midJnt @ ''_grp'', ''ac_ikfk_blend_'' @ rootJnt @ ''_grp''} \<and>
           list_all (\<lambda>g. parent_of (scene w') g = Some (rootJnt @ ''_rig_grp''))
             [''ac_fk_'' @ rootJnt @ ''_grp'', ''ac_ik_'' @ endJnt @ ''_grp'',
              ''ac_ik_'' @ midJnt @ ''_grp'', ''ac_ikfk_blend_'' @ rootJnt @ ''_grp''] \<and>
           distinct [''ac_fk_'' @ rootJnt @ ''_grp'', ''ac_ik_'' @ endJnt @ ''_grp'',
                     ''ac_ik_'' @ midJnt @ ''_grp'', ''ac_ikfk_blend_'' @ rootJnt @ ''_grp'',
                     rootJnt @ ''_rig_grp''] \<and>
           filter is_Parent (map fst (issued w w')) =
             [Parent (''ac_fk_'' @ midJnt @ ''_grp'') (''ac_fk_'' @ rootJnt),
              Parent (''ac_fk_'' @ endJnt @ ''_grp'') (''ac_fk_'' @ midJnt),
              Parent (''ikHandle_'' @ endJnt) (''ac_ik_'' @ endJnt)]"
proof -
  from RigTheLimb_Inr[OF assms(1)] obtain rootJnt midJnt endJnt r e pv p con where
    n: "index_strs (answer (issued w w') 0) 0 = Inr rootJnt"
       "index_strs (answer (issued w w') 0) 1 = Inr midJnt"
       "index_strs (answer (issued w w') 0) 2 = Inr endJnt" and
    ran: "ran maya w (rig_cmds sz rootJnt midJnt endJnt (midIkCtrlPos r e pv)
                         (ikfkBlendCtrlPos p) con) w'"
    by blast
  let ?cs = "rig_cmds sz rootJnt midJnt endJnt (midIkCtrlPos r e pv) (ikfkBlendCtrlPos p) con"
  from ran have cs: "map fst (issued w w') = ?cs" and rep: "list_all replied (issued w w')"
    and run: "run_calls maya (scene w) ?cs = (issued w w', scene w')"
    by (simp_all add: ran_def)
  have l: "last (map fst (issued w w')) = top_group rootJnt midJnt endJnt"
    unfolding cs by (rule rig_cmds_hierarchy)
  have f: "filter is_Parent (map fst (issued w w')) =
             [Parent (''ac_fk_'' @ midJnt @ ''_grp'') (''ac_fk_'' @ rootJnt),
              Parent (''ac_fk_'' @ endJnt @ ''_grp'') (''ac_fk_'' @ midJnt),
              Parent (''ikHandle_'' @ endJnt) (''ac_ik_'' @ endJnt)]"
    unfolding cs by (rule rig_cmds_hierarchy)
  note t = top_group_children[OF run rep assms(2)]
  have "set (children (scene w') (rootJnt @ ''_rig_grp'')) =
          set [''ac_fk_'' @ rootJnt @ ''_grp'', ''ac_ik_'' @ endJnt @ ''_grp'',
               ''ac_ik_'' @ midJnt @ ''_grp'', ''ac_ikfk_blend_'' @ rootJnt @ ''_grp'']"
    unfolding t(3) by (simp only: list.set)
  note a = children_parent[OF this]
  from n l t a f show ?thesis
    by - (rule exI[of _ rootJnt], rule exI[of _ midJnt], rule exI[of _ endJnt],
          intro conjI, assumption+)
qed

theorem four_branches_under_one_group_witness:
  "RigTheLimb maya 15 limb_world = (Inr (), built) \<and> wf_scene (scene limb_world) \<and>
   last (map fst (issued limb_world built)) =
     Group [''ac_fk_hip_grp'', ''ac_ik_ankle_grp'', ''ac_ik_knee_grp'', ''ac_ikfk_blend_hip_grp'']
       ''hip_rig_grp'' \<and>
   ''hip_rig_grp'' \<in> set (nodes (scene built)) \<and>
   parent_of (scene built) ''hip_rig_grp'' = None \<and>
   set (children (scene built) ''hip_rig_grp'') =
     {''ac_fk_hip_grp'', ''ac_ik_ankle_grp'', ''ac_ik_knee_grp'', ''ac_ikfk_blend_hip_grp''} \<and>
   parent_of (scene built) ''ac_fk_hip_grp'' = Some ''hip_rig_grp'' \<and>
   parent_of (scene built) ''ac_ik_ankle_grp'' = Some ''hip_rig_grp'' \<and>
   parent_of (scene built) ''ac_ik_knee_grp'' = Some ''hip_rig_grp'' \<and>
   parent_of (scene built) ''ac_ikfk_blend_hip_grp'' = Some ''hip_rig_grp'' \<and>
   filter is_Parent (map fst (issued limb_world built)) =
     [Parent ''ac_fk_knee_grp'' ''ac_fk_hip'', Parent ''ac_fk_ankle_grp'' ''ac_fk_knee'',
      Parent ''ikHandle_ankle'' ''ac_ik_ankle'']"
proof -
  have wf: "wf_scene (scene limb_world)"
    by (simp add: limb_world_def start_def limb_scene_def wf_scene_def)
  from four_branches_under_one_group[OF limb_run wf] limb_run wf show ?thesis
    unfolding limb_names by (simp add: top_group_def)
qed

subsection \<open>C7: the position of the blend control\<close>

text \<open>
  C7. In every build that returns, the call that follows the second query of the world
  position \<open>p\<close> of the root joint moves the group of the blend control to
  \<open>p + (p.x, 0, 0)\<close>, which is \<open>(2 * p.x, p.y, p.z)\<close>, and no later call moves anything.
\<close>

theorem blend_control_position:
  assumes "RigTheLimb host sz w = (Inr u, w')"
  shows "\<exists>rootJnt p.
           index_strs (answer (issued w w') 0) 0 = Inr rootJnt \<and>
           fst (issued w w' ! 33) = Xform_q_t_ws rootJnt \<and>
           mvector_of_vals (answer (issued w w') 33) = Inr p \<and>
           ikfkBlendCtrlPos p = vadd p (MVector (vx p) 0 0) \<and>
           vadd p (MVector (vx p) 0 0) = MVector (2 * vx p) (vy p) (vz p) \<and>
           fst (issued w w' ! 34) =
             Move (2 * vx p) (vy p) (vz p) (''ac_ikfk_blend_'' @ rootJnt @ ''_grp'') \<and>
           filter is_Move (drop 34 (map fst (issued w w'))) =
             [Move (2 * vx p) (vy p) (vz p) (''ac_ikfk_blend_'' @ rootJnt @ ''_grp'')]"
proof -
  from RigTheLimb_Inr[OF assms] obtain rootJnt midJnt endJnt r e pv p con where
    root: "index_strs (answer (issued w w') 0) 0 = Inr rootJnt" and
    p: "mvector_of_vals (answer (issued w w') 33) = Inr p" and
    ran: "ran host w (rig_cmds sz rootJnt midJnt endJnt (midIkCtrlPos r e pv)
                         (ikfkBlendCtrlPos p) con) w'"
    by blast
  let ?cs = "rig_cmds sz rootJnt midJnt endJnt (midIkCtrlPos r e pv) (ikfkBlendCtrlPos p) con"
  from ran_cmds[OF ran] have cs: "map fst (issued w w') = ?cs" by simp
  have 33: "fst (issued w w' ! 33) = Xform_q_t_ws rootJnt"
    using nth_cmd[OF cs, of 33] by (simp add: rig_cmds_nth)
  have 34: "fst (issued w w' ! 34) =
             Move (2 * vx p) (vy p) (vz p) (''ac_ikfk_blend_'' @ rootJnt @ ''_grp'')"
    using nth_cmd[OF cs, of 34] by (simp add: rig_cmds_nth ikfkBlendCtrlPos_spec)
  have mv: "filter is_Move (drop 34 (map fst (issued w w'))) =
             [Move (2 * vx p) (vy p) (vz p) (''ac_ikfk_blend_'' @ rootJnt @ ''_grp'')]"
    unfolding cs rig_cmds_moves by (simp add: ikfkBlendCtrlPos_spec)
  have v: "vadd p (MVector (vx p) 0 0) = MVector (2 * vx p) (vy p) (vz p)"
    by (cases p) (simp add: vadd_def)
  have d: "ikfkBlendCtrlPos p = vadd p (MVector (vx p) 0 0)"
    by (simp add: ikfkBlendCtrlPos_def)
  from root p 33 34 mv v d show ?thesis by blast
qed

theorem blend_control_position_witness:
  "RigTheLimb maya 15 limb_world = (Inr (), built) \<and>
   index_strs (answer (issued limb_world built) 0) 0 = Inr ''hip'' \<and>
   fst (issued limb_world built ! 33) = Xform_q_t_ws ''hip'' \<and>
   mvector_of_vals (answer (issued limb_world built) 33) = Inr (MVector 3 0 0) \<and>
   fst (issued limb_world built ! 34) = Move 6 0 0 ''ac_ikfk_blend_hip_grp'' \<and>
   filter is_Move (drop 34 (map fst (issued limb_world built))) =
     [Move 6 0 0 ''ac_ikfk_blend_hip_grp''] \<and>
   translation (scene built) ''ac_ikfk_blend_hip_grp'' = Some (MVector 6 0 0)"
proof -
  from blend_control_position[OF limb_run] obtain rootJnt p where
    f: "index_strs (answer (issued limb_world built) 0) 0 = Inr rootJnt"
       "fst (issued limb_world built ! 33) = Xform_q_t_ws rootJnt"
       "mvector_of_vals (answer (issued limb_world built) 33) = Inr p"
       "fst (issued limb_world built ! 34) =
             Move (2 * vx p) (vy p) (vz p) (''ac_ikfk_blend_'' @ rootJnt @ ''_grp'')"
       "filter is_Move (drop 34 (map fst (issued limb_world built))) =
             [Move (2 * vx p) (vy p) (vz p) (''ac_ikfk_blend_'' @ rootJnt @ ''_grp'')]"
    by blast
  from f(1) limb_names(1) have r: "rootJnt = ''hip''" by simp
  from f(3) limb_names(4) have p: "p = MVector 3 0 0" by simp
  from f(2,4,5) limb_run limb_names(1,4) limb_built(4) show ?thesis
    unfolding r p by simp
qed

subsection \<open>C8: a failing call ends the build\<close>

text \<open>
  C8. For every host and every world, the build only appends calls to the trace, and the
  scene it leaves is exactly what the host made of those calls, one after the other: the
  tool makes no call it does not log and undoes nothing. A call that raised an error is
  the last call of the build, and its error, unchanged, is the result of the build. When a
  failing call of the host leaves the scene as it was, the scene after a failed build is
  the scene made by the calls before the failing one.
\<close>

theorem failing_call_ends_the_build:
  "trace (snd (RigTheLimb host sz w)) = trace w @ issued w (snd (RigTheLimb host sz w)) \<and>
   run_calls host (scene w) (map fst (issued w (snd (RigTheLimb host sz w)))) =
     (issued w (snd (RigTheLimb host sz w)), scene (snd (RigTheLimb host sz w))) \<and>
   (\<forall>i e. i < length (issued w (snd (RigTheLimb host sz w))) \<and>
          snd (issued w (snd (RigTheLimb host sz w)) ! i) = Inl e \<longrightarrow>
          fst (RigTheLimb host sz w) = Inl e \<and>
          Suc i = length (issued w (snd (RigTheLimb host sz w)))) \<and>
   ((\<forall>s c. isl (fst (host s c)) \<longrightarrow> snd (host s c) = s) \<longrightarrow>
    (\<forall>e. issued w (snd (RigTheLimb host sz w)) \<noteq> [] \<and>
         snd (last (issued w (snd (RigTheLimb host sz w)))) = Inl e \<longrightarrow>
         scene (snd (RigTheLimb host sz w)) =
           snd (run_calls host (scene w)
                  (butlast (map fst (issued w (snd (RigTheLimb host sz w))))))))"
  using plain_issued[OF plain_RigTheLimb, of host sz w]
  by (auto intro: run_calls_failed_last)

theorem failing_call_ends_the_build_witness:
  "fst (RigTheLimb maya 15 (start taken_scene)) = Inl (RuntimeError ''name is not unique'') \<and>
   map fst (issued (start taken_scene) (snd (RigTheLimb maya 15 (start taken_scene)))) =
     Ls_sl # fk_cmds 15 ''hip'' @ [Circle ''ac_fk_knee'' 15 (1, 0, 0)] \<and>
   snd (last (issued (start taken_scene) (snd (RigTheLimb maya 15 (start taken_scene))))) =
     Inl (RuntimeError ''name is not unique'') \<and>
   scene (snd (RigTheLimb maya 15 (start taken_scene))) =
     snd (run_calls maya taken_scene (Ls_sl # fk_cmds 15 ''hip'')) \<and>
   nodes (scene (snd (RigTheLimb maya 15 (start taken_scene)))) =
     [''hip'', ''knee'', ''ankle'', ''toe'', ''ac_fk_knee'', ''ac_fk_hip'', ''ac_fk_hip_grp'']"
proof -
  let ?new = "issued (start taken_scene) (snd (RigTheLimb maya 15 (start taken_scene)))"
  from taken_run(2) have ne: "?new \<noteq> []" by auto
  have q: "\<forall>s c. isl (fst (maya s c)) \<longrightarrow> snd (maya s c) = s"
    by (simp add: maya_failure_quiet)
  from failing_call_ends_the_build[of maya 15 "start taken_scene"] q ne taken_run(3)
  have "scene (snd (RigTheLimb maya 15 (start taken_scene))) =
        snd (run_calls maya (scene (start taken_scene)) (butlast (map fst ?new)))"
    by blast
  moreover have "butlast (map fst ?new) = Ls_sl # fk_cmds 15 ''hip''"
    unfolding taken_run(2) by simp
  moreover have "scene (start taken_scene) = taken_scene"
    by (simp add: start_def)
  ultimately have "scene (snd (RigTheLimb maya 15 (start taken_scene))) =
     snd (run_calls maya taken_scene (Ls_sl # fk_cmds 15 ''hip''))"
    by (simp only:)
  with taken_run show ?thesis by (simp only: simp_thms)
qed

subsection \<open>C9: the IK handle\<close>

text \<open>
  C9. In every run of the IK stage \<^verbatim>\<open>CreateIkControl\<close> that returns, exactly one call
  creates an IK handle, with the rotate-plane solver, from the root joint to the end
  joint; the stage creates the pole-vector locator and binds the handle to it with a
  pole-vector constraint; its last call sets the visibility attribute of the handle to 0;
  and every call of the stage returned.
\<close>

theorem ik_handle_created_once:
  assumes "CreateIkControl host sz rootJnt midJnt endJnt w = (Inr res, w')"
  shows "filter is_IkHandle (map fst (issued w w')) =
           [IkHandle (''ikHandle_'' @ endJnt) rootJnt endJnt ''ikRPsolver''] \<and>
         SpaceLocator (''ac_ik_'' @ midJnt) \<in> set (map fst (issued w w')) \<and>
         PoleVectorConstraint (''ac_ik_'' @ midJnt) (''ikHandle_'' @ endJnt)
           \<in> set (map fst (issued w w')) \<and>
         last (map fst (issued w w')) = SetAttr (''ikHandle_'' @ endJnt @ ''.v'') 0 \<and>
         list_all replied (issued w w')"
proof -
  from CreateIkControl_Inr[OF assms] obtain r e pv where
    ran: "ran host w (ik_cmds sz rootJnt midJnt endJnt (midIkCtrlPos r e pv)) w'"
    by blast
  from ran_cmds[OF ran] show ?thesis
    by (simp add: ik_cmds_def)
qed

theorem ik_handle_created_once_witness:
  "CreateIkControl maya 15 ''hip'' ''knee'' ''ankle'' (pole_world (MVector 0 0 3)) =
     (Inr (''ac_ik_ankle'', ''ac_ik_ankle_grp'', ''ac_ik_knee'', ''ac_ik_knee_grp'',
           ''ikHandle_ankle''), ik_built (MVector 0 0 3)) \<and>
   filter is_IkHandle (map fst (issued (pole_world (MVector 0 0 3)) (ik_built (MVector 0 0 3)))) =
     [IkHandle ''ikHandle_ankle'' ''hip'' ''ankle'' ''ikRPsolver''] \<and>
   SpaceLocator ''ac_ik_knee''
     \<in> set (map fst (issued (pole_world (MVector 0 0 3)) (ik_built (MVector 0 0 3)))) \<and>
   PoleVectorConstraint ''ac_ik_knee'' ''ikHandle_ankle''
     \<in> set (map fst (issued (pole_world (MVector 0 0 3)) (ik_built (MVector 0 0 3)))) \<and>
   last (map fst (issued (pole_world (MVector 0 0 3)) (ik_built (MVector 0 0 3)))) =
     SetAttr ''ikHandle_ankle.v'' 0 \<and>
   list_all replied (issued (pole_world (MVector 0 0 3)) (ik_built (MVector 0 0 3)))"
  using ik_handle_created_once[OF limb_ik_run[of "MVector 0 0 3"]] limb_ik_run[of "MVector 0 0 3"]
  by simp

subsection \<open>C10: joints beyond the third\<close>

text \<open>
  C10. Whenever the selection query returns three names or more, reading the selection
  raises no error: the first three names are taken, in this order, as root, middle and
  end joint, and the outcome of the build, the scene it leaves and the calls it makes
  after the query are those of lines 63 to 96 run on these three joints from the scene
  the query left. The names beyond the third appear nowhere but in the logged reply of
  the query.
\<close>

theorem joints_beyond_the_third_are_ignored:
  assumes "host (scene w) Ls_sl = (Inr (VStrs (r # m # e # rest)), h)"
  shows "fst (RigTheLimb host sz w) =
           fst (RigTheLimb_joints host sz r m e \<lparr>scene = h, trace = []\<rparr>) \<and>
         scene (snd (RigTheLimb host sz w)) =
           scene (snd (RigTheLimb_joints host sz r m e \<lparr>scene = h, trace = []\<rparr>)) \<and>
         issued w (snd (RigTheLimb host sz w)) =
           (Ls_sl, Inr (VStrs (r # m # e # rest))) #
           trace (snd (RigTheLimb_joints host sz r m e \<lparr>scene = h, trace = []\<rparr>))"
proof -
  let ?w0 = "\<lparr>scene = h, trace = []\<rparr>"
  let ?t = "trace w @ [(Ls_sl, Inr (VStrs (r # m # e # rest)))]"
  have 1: "RigTheLimb host sz w = RigTheLimb_joints host sz r m e \<lparr>scene = h, trace = ?t\<rparr>"
    using assms by (simp add: RigTheLimb_def then_do_def call_def lift_def index_strs_def)
  from plain_issued[OF plain_RigTheLimb_joints, of host sz r m e ?w0]
  have 2: "RigTheLimb_joints host sz r m e (?w0\<lparr>trace := ?t\<rparr>) =
          (fst (RigTheLimb_joints host sz r m e ?w0),
           (snd (RigTheLimb_joints host sz r m e ?w0))
             \<lparr>trace := ?t @ issued ?w0 (snd (RigTheLimb_joints host sz r m e ?w0))\<rparr>)"
    by blast
  have 3: "issued ?w0 (snd (RigTheLimb_joints host sz r m e ?w0)) =
           trace (snd (RigTheLimb_joints host sz r m e ?w0))"
    by (simp add: issued_def)
  from 1 2 3 show ?thesis by (simp add: issued_def)
qed

theorem joints_beyond_the_third_are_ignored_witness:
  "maya (scene (start (limb_scene [''hip'', ''knee'', ''ankle'', ''toe'']))) Ls_sl =
     (Inr (VStrs [''hip'', ''knee'', ''ankle'', ''toe'']),
      limb_scene [''hip'', ''knee'', ''ankle'', ''toe'']) \<and>
   fst (RigTheLimb maya 15 (start (limb_scene [''hip'', ''knee'', ''ankle'', ''toe'']))) =
     fst (RigTheLimb_joints maya 15 ''hip'' ''knee'' ''ankle''
            \<lparr>scene = limb_scene [''hip'', ''knee'', ''ankle'', ''toe''], trace = []\<rparr>) \<and>
   scene (snd (RigTheLimb maya 15 (start (limb_scene [''hip'', ''knee'', ''ankle'', ''toe''])))) =
     scene (snd (RigTheLimb_joints maya 15 ''hip'' ''knee'' ''ankle''
            \<lparr>scene = limb_scene [''hip'', ''knee'', ''ankle'', ''toe''], trace = []\<rparr>)) \<and>
   fst (RigTheLimb maya 15 (start (limb_scene [''hip'', ''knee'', ''ankle'', ''toe'']))) = Inr ()"
proof -
  have 1: "maya (scene (start (limb_scene [''hip'', ''knee'', ''ankle'', ''toe'']))) Ls_sl =
     (Inr (VStrs [''hip'', ''knee'', ''ankle'', ''toe'']),
      limb_scene [''hip'', ''knee'', ''ankle'', ''toe''])"
    by (simp add: start_def limb_scene_def)
  from joints_beyond_the_third_are_ignored[of maya "start (limb_scene [''hip'', ''knee'', ''ankle'', ''toe''])"
        "''hip''" "''knee''" "''ankle''" "[''toe'']"
        "limb_scene [''hip'', ''knee'', ''ankle'', ''toe'']" 15, OF 1]
    1 limb_build[of "[''toe'']"]
  show ?thesis by (simp only: simp_thms)
qed

end
